theory Spec2Isabelle
  imports Complex_Main "HOL-Library.Word" "HOL-Library.Multiset"
begin

text \<open>
  A model of the park management front-end: the validation rules of the two forms, the
  image address of a card, the derived list of the list view, and the handlers that
  submit, delete and fetch, followed by the properties of the specification that were
  checked against it.
\<close>

section \<open>JavaScript values\<close>

text \<open>
  A JavaScript string is a sequence of 16-bit code units; \<open>length\<close> is the
  \<^verbatim>\<open>.length\<close> of the source. Literals of the source that are plain ASCII are written
  with \<open>js\<close>; a letter outside ASCII is given by its code unit (the source file stores
  the accented letters precomposed, one code unit each).
\<close>

type_synonym jschar = "16 word"
type_synonym jsstring = "jschar list"

definition js :: "string \<Rightarrow> jsstring" where
  "js s = map of_char s"

text \<open>
  The characters removed by \<^verbatim>\<open>String.prototype.trim\<close> (WhiteSpace and LineTerminator
  of the language definition); the regular expression class \<^verbatim>\<open>\s\<close> is the same set.
\<close>

definition isWhiteSpace :: "jschar \<Rightarrow> bool" where
  "isWhiteSpace c \<longleftrightarrow>
     c \<in> set [0x09, 0x0A, 0x0B, 0x0C, 0x0D, 0x20, 0xA0, 0x1680,
              0x2028, 0x2029, 0x202F, 0x205F, 0x3000, 0xFEFF]
     \<or> (0x2000 \<le> c \<and> c \<le> 0x200A)"

definition trim :: "jsstring \<Rightarrow> jsstring" where
  "trim s = rev (dropWhile isWhiteSpace (rev (dropWhile isWhiteSpace s)))"

text \<open>
  Numbers are IEEE doubles: a finite double is a rational, and the comparisons of the
  source are exact on them. The conversion of a string to a number (rounding to the
  nearest double) belongs to the language runtime and is a parameter of the development,
  as are the locale-dependent string operations.
\<close>

datatype jsnumber = NaN | Num rat | PlusInf | MinusInf

definition isNaN :: "jsnumber \<Rightarrow> bool" where
  "isNaN n \<longleftrightarrow> n = NaN"

fun js_less :: "jsnumber \<Rightarrow> jsnumber \<Rightarrow> bool" where
  "js_less NaN _ = False"
| "js_less _ NaN = False"
| "js_less (Num x) (Num y) = (x < y)"
| "js_less (Num _) PlusInf = True"
| "js_less (Num _) MinusInf = False"
| "js_less PlusInf _ = False"
| "js_less MinusInf MinusInf = False"
| "js_less MinusInf _ = True"

text \<open>
  A property read from an object that came from outside the program is missing
  (\<^verbatim>\<open>undefined\<close>), \<^verbatim>\<open>null\<close>, or holds a value.
\<close>

datatype 'a nullable = Undefined | Null | Val 'a

record runtime =
  ToNumber :: "jsstring \<Rightarrow> jsnumber"
  parseInt :: "jsstring \<Rightarrow> jsnumber"
  parseFloat :: "jsstring \<Rightarrow> jsnumber"
  toUpperCase :: "jsstring \<Rightarrow> jsstring"
  toLowerCase :: "jsstring \<Rightarrow> jsstring"
  localeCompare :: "jsstring \<Rightarrow> jsstring \<Rightarrow> int"

text \<open>
  An object with string keys keeps its keys in insertion order: assigning to an existing
  key replaces the value in place, assigning to a new key appends it.
\<close>

fun obj_set :: "'k \<Rightarrow> 'v \<Rightarrow> ('k \<times> 'v) list \<Rightarrow> ('k \<times> 'v) list" where
  "obj_set k v [] = [(k, v)]"
| "obj_set k v ((k', v') # ps) = (if k' = k then (k, v) # ps else (k', v') # obj_set k v ps)"

definition Object_keys :: "('k \<times> 'v) list \<Rightarrow> 'k list" where
  "Object_keys obj = map fst obj"

section \<open>Validation rules (useFormValidation in ParkForm.jsx and ParkEditForm.jsx)\<close>

text \<open>
  The draft held by both forms always has the same nine keys, in this order; it is
  indexed by key, as the source does with \<^verbatim>\<open>formData[key]\<close>.
\<close>

datatype fieldName =
    PARK_NAME | PARK_ABBREVIATION | PARK_IMG_URL | PARK_ADDRESS | PARK_CITY
  | PARK_STATE | PARK_ZIP_CODE | PARK_LATITUDE | PARK_LONGITUDE

type_synonym formData = "fieldName \<Rightarrow> jsstring"

definition formKeys :: "fieldName list" where
  "formKeys = [PARK_NAME, PARK_ABBREVIATION, PARK_IMG_URL, PARK_ADDRESS, PARK_CITY,
               PARK_STATE, PARK_ZIP_CODE, PARK_LATITUDE, PARK_LONGITUDE]"

subsection \<open>The regular expressions\<close>

definition isLetter :: "jschar \<Rightarrow> bool" where
  "isLetter c \<longleftrightarrow>
     (0x61 \<le> c \<and> c \<le> 0x7A) \<or> (0x41 \<le> c \<and> c \<le> 0x5A)
     \<or> c \<in> set [0xE1, 0xE9, 0xED, 0xF3, 0xFA, 0xC1, 0xC9, 0xCD, 0xD3, 0xDA, 0xF1, 0xD1]"

text \<open>\<^verbatim>\<open>/^[a-zA-Z...\s]+$/\<close> and \<^verbatim>\<open>/^[a-zA-Z...]+$/\<close>, the dots standing for the twelve
  accented letters.\<close>

definition test_letters_spaces :: "jsstring \<Rightarrow> bool" where
  "test_letters_spaces s \<longleftrightarrow> s \<noteq> [] \<and> list_all (\<lambda>c. isLetter c \<or> isWhiteSpace c) s"

definition test_letters :: "jsstring \<Rightarrow> bool" where
  "test_letters s \<longleftrightarrow> s \<noteq> [] \<and> list_all isLetter s"

text \<open>
  \<^verbatim>\<open>/^https?:\/\/.+\.(jpg|jpeg|png|webp)(\?.*)?$/i\<close>. Under the flag \<^verbatim>\<open>i\<close> (without
  \<^verbatim>\<open>u\<close>) an ASCII letter of the pattern matches itself and its upper-case form only;
  the dot matches any code unit but a line terminator.
\<close>

definition ci_char :: "jschar \<Rightarrow> jschar \<Rightarrow> bool" where
  "ci_char p c \<longleftrightarrow> c = p \<or> (0x61 \<le> p \<and> p \<le> 0x7A \<and> c = p - 0x20)"

fun ci_prefix :: "jsstring \<Rightarrow> jsstring \<Rightarrow> jsstring option" where
  "ci_prefix [] s = Some s"
| "ci_prefix (p # ps) [] = None"
| "ci_prefix (p # ps) (c # cs) = (if ci_char p c then ci_prefix ps cs else None)"

definition isLineTerminator :: "jschar \<Rightarrow> bool" where
  "isLineTerminator c \<longleftrightarrow> c \<in> set [0x0A, 0x0D, 0x2028, 0x2029]"

definition match_query :: "jsstring \<Rightarrow> bool" where
  "match_query q \<longleftrightarrow>
     (case q of [] \<Rightarrow> True | c # cs \<Rightarrow> c = 0x3F \<and> list_all (\<lambda>d. \<not> isLineTerminator d) cs)"

definition match_extension :: "jsstring \<Rightarrow> bool" where
  "match_extension r \<longleftrightarrow>
     list_ex (\<lambda>ext. case ci_prefix ext r of None \<Rightarrow> False | Some q \<Rightarrow> match_query q)
       [js ''jpg'', js ''jpeg'', js ''png'', js ''webp'']"

fun match_path :: "jsstring \<Rightarrow> bool" where
  "match_path [] = False"
| "match_path (c # cs) =
     (\<not> isLineTerminator c \<and>
      ((case cs of [] \<Rightarrow> False | d # r \<Rightarrow> d = 0x2E \<and> match_extension r) \<or> match_path cs))"

definition match_scheme_tail :: "jsstring \<Rightarrow> bool" where
  "match_scheme_tail r \<longleftrightarrow>
     (case ci_prefix (js ''://'') r of None \<Rightarrow> False | Some p \<Rightarrow> match_path p)"

definition test_img_url :: "jsstring \<Rightarrow> bool" where
  "test_img_url s \<longleftrightarrow>
     (case ci_prefix (js ''http'') s of
        None \<Rightarrow> False
      | Some r \<Rightarrow>
          match_scheme_tail r
          \<or> (case r of [] \<Rightarrow> False | c # cs \<Rightarrow> ci_char 0x73 c \<and> match_scheme_tail cs))"

text \<open>\<^verbatim>\<open>/^4[4-5]\d{3}$/\<close>\<close>

definition isDigit :: "jschar \<Rightarrow> bool" where
  "isDigit c \<longleftrightarrow> 0x30 \<le> c \<and> c \<le> 0x39"

definition test_zip_code :: "jsstring \<Rightarrow> bool" where
  "test_zip_code s \<longleftrightarrow>
     (case s of
        [a, b, c, d, e] \<Rightarrow> a = 0x34 \<and> (0x34 \<le> b \<and> b \<le> 0x35) \<and> isDigit c \<and> isDigit d \<and> isDigit e
      | _ \<Rightarrow> False)"

definition validCities :: "jsstring list" where
  "validCities = [js ''Zapopan'', js ''Guadalajara'', js ''San Pedro Tlaquepaque'',
                  js ''Tonal'' @ [0xE1]]"

subsection \<open>validationRules\<close>

text \<open>A rule returns \<open>None\<close> for the source's \<^verbatim>\<open>null\<close> and the message otherwise.\<close>

definition rule_park_name :: "jsstring \<Rightarrow> jsstring option" where
  "rule_park_name val =
     (if trim val = [] then Some (js ''El nombre es requerido'')
      else if length val < 3 then Some (js ''M'' @ [0xED] @ js ''nimo 3 caracteres'')
      else if length val > 100 then Some (js ''M'' @ [0xE1] @ js ''ximo 100 caracteres'')
      else if \<not> test_letters_spaces (trim val) then Some (js ''Solo letras y espacios'')
      else None)"

definition rule_park_abbreviation :: "jsstring \<Rightarrow> jsstring option" where
  "rule_park_abbreviation val =
     (if trim val = [] then Some (js ''La abreviaci'' @ [0xF3] @ js ''n es requerida'')
      else if length val < 2 then Some (js ''M'' @ [0xED] @ js ''nimo 2 caracteres'')
      else if length val > 10 then Some (js ''M'' @ [0xE1] @ js ''ximo 10 caracteres'')
      else if \<not> test_letters (trim val) then Some (js ''Solo letras'')
      else None)"

definition rule_park_img_url :: "jsstring \<Rightarrow> jsstring option" where
  "rule_park_img_url val =
     (if trim val = [] then Some (js ''La URL es requerida'')
      else if \<not> test_img_url val
        then Some (js ''URL inv'' @ [0xE1] @ js ''lida (.jpg, .jpeg, .png, .webp)'')
      else None)"

definition rule_park_address :: "jsstring \<Rightarrow> jsstring option" where
  "rule_park_address val =
     (if trim val = [] then Some (js ''La direcci'' @ [0xF3] @ js ''n es requerida'')
      else if length val < 10 then Some (js ''M'' @ [0xED] @ js ''nimo 10 caracteres'')
      else if length val > 150 then Some (js ''M'' @ [0xE1] @ js ''ximo 150 caracteres'')
      else None)"

definition rule_park_city :: "jsstring \<Rightarrow> jsstring option" where
  "rule_park_city val =
     (if val = [] then Some (js ''La ciudad es requerida'')
      else if val \<notin> set validCities then Some (js ''Ciudad no v'' @ [0xE1] @ js ''lida'')
      else None)"

definition rule_park_zip_code :: "jsstring \<Rightarrow> jsstring option" where
  "rule_park_zip_code val =
     (if val = [] then Some (js ''El c'' @ [0xF3] @ js ''digo postal es requerido'')
      else if \<not> test_zip_code val
        then Some (js ''C'' @ [0xF3] @ js ''digo inv'' @ [0xE1] @ js ''lido para Jalisco (44xxx o 45xxx)'')
      else None)"

definition rule_park_latitude :: "runtime \<Rightarrow> jsstring \<Rightarrow> jsstring option" where
  "rule_park_latitude rt val =
     (if val = [] then Some (js ''La latitud es requerida'')
      else if isNaN (ToNumber rt val) \<or> js_less (ToNumber rt val) (Num 20)
              \<or> js_less (Num (43 / 2)) (ToNumber rt val)
        then Some (js ''Latitud inv'' @ [0xE1] @ js ''lida para Jalisco (20-21.5)'')
      else None)"

definition rule_park_longitude :: "runtime \<Rightarrow> jsstring \<Rightarrow> jsstring option" where
  "rule_park_longitude rt val =
     (if val = [] then Some (js ''La longitud es requerida'')
      else if isNaN (ToNumber rt val) \<or> js_less (ToNumber rt val) (Num (- 105))
              \<or> js_less (Num (- 102)) (ToNumber rt val)
        then Some (js ''Longitud inv'' @ [0xE1] @ js ''lida para Jalisco (-105 a -102)'')
      else None)"

text \<open>The table itself: there is no entry for \<^verbatim>\<open>park_state\<close>.\<close>

fun validationRules :: "runtime \<Rightarrow> fieldName \<Rightarrow> (jsstring \<Rightarrow> jsstring option) option" where
  "validationRules rt PARK_NAME = Some rule_park_name"
| "validationRules rt PARK_ABBREVIATION = Some rule_park_abbreviation"
| "validationRules rt PARK_IMG_URL = Some rule_park_img_url"
| "validationRules rt PARK_ADDRESS = Some rule_park_address"
| "validationRules rt PARK_CITY = Some rule_park_city"
| "validationRules rt PARK_ZIP_CODE = Some rule_park_zip_code"
| "validationRules rt PARK_LATITUDE = Some (rule_park_latitude rt)"
| "validationRules rt PARK_LONGITUDE = Some (rule_park_longitude rt)"
| "validationRules rt PARK_STATE = None"

text \<open>\<^verbatim>\<open>validationRules[name]?.(value)\<close>: \<open>None\<close> is \<^verbatim>\<open>undefined\<close> or \<^verbatim>\<open>null\<close>.\<close>

definition rule_result :: "runtime \<Rightarrow> fieldName \<Rightarrow> jsstring \<Rightarrow> jsstring option" where
  "rule_result rt name val = (case validationRules rt name of None \<Rightarrow> None | Some rule \<Rightarrow> rule val)"

text \<open>A string is truthy when it is not empty; \<^verbatim>\<open>undefined\<close> and \<^verbatim>\<open>null\<close> are falsy.\<close>

definition truthy :: "jsstring option \<Rightarrow> bool" where
  "truthy x \<longleftrightarrow> (case x of None \<Rightarrow> False | Some s \<Rightarrow> s \<noteq> [])"

text \<open>
  The \<^verbatim>\<open>errors\<close> state of the hook is an object from field names to a message or
  \<^verbatim>\<open>undefined\<close> (\<open>None\<close>). \<open>validate\<close> returns the new state and its boolean result.
\<close>

type_synonym errorsObj = "(fieldName \<times> jsstring option) list"

definition validate :: "runtime \<Rightarrow> fieldName \<Rightarrow> jsstring \<Rightarrow> errorsObj \<Rightarrow> errorsObj \<times> bool" where
  "validate rt name val prev =
     (let error = rule_result rt name val
      in (obj_set name (if truthy error then error else None) prev, \<not> truthy error))"

definition validateAll_step :: "runtime \<Rightarrow> formData \<Rightarrow> fieldName \<Rightarrow> errorsObj \<times> bool \<Rightarrow> errorsObj \<times> bool" where
  "validateAll_step rt fd key acc =
     (let error = rule_result rt key (fd key)
      in if truthy error then (obj_set key error (fst acc), False) else acc)"

text \<open>\<open>validateAll\<close> returns the object it passes to \<^verbatim>\<open>setErrors\<close> and its boolean result.\<close>

definition validateAll :: "runtime \<Rightarrow> formData \<Rightarrow> errorsObj \<times> bool" where
  "validateAll rt fd = fold (validateAll_step rt fd) formKeys ([], True)"

text \<open>The entries \<open>validateAll\<close> collects, in key order.\<close>

definition failing :: "runtime \<Rightarrow> formData \<Rightarrow> fieldName list \<Rightarrow> errorsObj" where
  "failing rt fd ks =
     map (\<lambda>k. (k, rule_result rt k (fd k))) (filter (\<lambda>k. rule_result rt k (fd k) \<noteq> None) ks)"

definition ruledFields :: "fieldName list" where
  "ruledFields = [PARK_NAME, PARK_ABBREVIATION, PARK_IMG_URL, PARK_ADDRESS, PARK_CITY,
                  PARK_ZIP_CODE, PARK_LATITUDE, PARK_LONGITUDE]"

section \<open>Park records and the card (ParkCard.jsx)\<close>

text \<open>
  A record as the API returns it (\<open>park_id\<close> is its property \<^verbatim>\<open>id\<close>). Identifiers
  are integers, and the three numeric fields are held by the string that
  \<^verbatim>\<open>toString\<close> gives for them.
\<close>

record park =
  park_id :: "int nullable"
  park_name :: "jsstring nullable"
  park_abbreviation :: "jsstring nullable"
  park_img_url :: "jsstring nullable"
  park_img_uri :: "jsstring nullable"
  park_address :: "jsstring nullable"
  park_city :: "jsstring nullable"
  park_state :: "jsstring nullable"
  park_zip_code :: "jsstring nullable"
  park_latitude :: "jsstring nullable"
  park_longitude :: "jsstring nullable"

text \<open>Truthiness of a field: a non-empty string.\<close>

definition truthy_field :: "jsstring nullable \<Rightarrow> bool" where
  "truthy_field x \<longleftrightarrow> (case x of Val s \<Rightarrow> s \<noteq> [] | _ \<Rightarrow> False)"




text \<open>The three state variables of a card and the events that assign to them.\<close>

record cardState =
  isDeleting :: bool
  imageLoaded :: bool
  imageError :: bool


definition initialCard :: cardState where
  "initialCard = \<lparr> isDeleting = False, imageLoaded = False, imageError = False \<rparr>"


section \<open>The list view (ParkList.jsx)\<close>

fun String_includes :: "jsstring \<Rightarrow> jsstring \<Rightarrow> bool" where
  "String_includes [] t \<longleftrightarrow> t = []"
| "String_includes (c # cs) t \<longleftrightarrow> take (length t) (c # cs) = t \<or> String_includes cs t"

text \<open>\<^verbatim>\<open>field?.toLowerCase().includes(searchTerm.toLowerCase())\<close>\<close>

definition includes_lower :: "runtime \<Rightarrow> jsstring nullable \<Rightarrow> jsstring \<Rightarrow> bool" where
  "includes_lower rt field searchTerm =
     (case field of
        Val s \<Rightarrow> String_includes (toLowerCase rt s) (toLowerCase rt searchTerm)
      | _ \<Rightarrow> False)"

definition matchesSearch :: "runtime \<Rightarrow> park \<Rightarrow> jsstring \<Rightarrow> bool" where
  "matchesSearch rt park searchTerm \<longleftrightarrow>
     searchTerm = []
     \<or> includes_lower rt (park_name park) searchTerm
     \<or> includes_lower rt (park_city park) searchTerm
     \<or> includes_lower rt (park_state park) searchTerm
     \<or> includes_lower rt (park_address park) searchTerm"

definition matchesCity :: "park \<Rightarrow> jsstring \<Rightarrow> bool" where
  "matchesCity park filterCity \<longleftrightarrow> filterCity = [] \<or> park_city park = Val filterCity"

text \<open>\<^verbatim>\<open>field || ''\<close> and \<^verbatim>\<open>id || 0\<close>\<close>

definition or_empty :: "jsstring nullable \<Rightarrow> jsstring" where
  "or_empty x = (case x of Val s \<Rightarrow> s | _ \<Rightarrow> [])"

definition or_zero :: "int nullable \<Rightarrow> int" where
  "or_zero x = (case x of Val i \<Rightarrow> i | _ \<Rightarrow> 0)"

definition compareParks :: "runtime \<Rightarrow> jsstring \<Rightarrow> park \<Rightarrow> park \<Rightarrow> int" where
  "compareParks rt sortBy a b =
     (if sortBy = js ''city''
        then localeCompare rt (or_empty (park_city a)) (or_empty (park_city b))
      else if sortBy = js ''recent''
        then or_zero (park_id b) - or_zero (park_id a)
      else localeCompare rt (or_empty (park_name a)) (or_empty (park_name b)))"

text \<open>
  \<^verbatim>\<open>Array.prototype.sort\<close> is stable; for a comparator that is a total preorder its
  result is the one stable sorted arrangement, which insertion from the right computes.
\<close>

fun insert_by :: "('a \<Rightarrow> 'a \<Rightarrow> int) \<Rightarrow> 'a \<Rightarrow> 'a list \<Rightarrow> 'a list" where
  "insert_by cmp x [] = [x]"
| "insert_by cmp x (y # ys) = (if cmp x y \<le> 0 then x # y # ys else y # insert_by cmp x ys)"

definition Array_sort :: "('a \<Rightarrow> 'a \<Rightarrow> int) \<Rightarrow> 'a list \<Rightarrow> 'a list" where
  "Array_sort cmp xs = foldr (insert_by cmp) xs []"

definition filteredAndSortedParks ::
  "runtime \<Rightarrow> park list \<Rightarrow> jsstring \<Rightarrow> jsstring \<Rightarrow> jsstring \<Rightarrow> park list" where
  "filteredAndSortedParks rt parks searchTerm filterCity sortBy =
     Array_sort (compareParks rt sortBy)
       (filter (\<lambda>park. matchesSearch rt park searchTerm \<and> matchesCity park filterCity) parks)"

definition handleParkDeleted :: "park list \<Rightarrow> int nullable \<Rightarrow> park list" where
  "handleParkDeleted parks deletedParkId = filter (\<lambda>park. park_id park \<noteq> deletedParkId) parks"

section \<open>Requests\<close>

fun string_of_nat :: "nat \<Rightarrow> jsstring" where
  "string_of_nat n =
     (if n < 10 then [0x30 + of_nat n] else string_of_nat (n div 10) @ [0x30 + of_nat (n mod 10)])"

definition string_of_int :: "int \<Rightarrow> jsstring" where
  "string_of_int i = (if i < 0 then 0x2D # string_of_nat (nat (- i)) else string_of_nat (nat i))"

text \<open>A value interpolated into a template literal.\<close>

definition template_string :: "jsstring nullable \<Rightarrow> jsstring" where
  "template_string x =
     (case x of Undefined \<Rightarrow> js ''undefined'' | Null \<Rightarrow> js ''null'' | Val s \<Rightarrow> s)"

definition template_id :: "int nullable \<Rightarrow> jsstring" where
  "template_id x =
     (case x of Undefined \<Rightarrow> js ''undefined'' | Null \<Rightarrow> js ''null'' | Val i \<Rightarrow> string_of_int i)"

datatype httpMethod = GET | POST | PUT | DELETE

datatype jsvalue = Str jsstring | Number jsnumber

record request =
  http_method :: httpMethod
  url :: jsstring
  data :: "(fieldName \<times> jsvalue) list option"
  headers :: "(jsstring \<times> jsstring) list"
  params :: "(jsstring \<times> jsstring) list"
  timeout :: "nat option"

text \<open>The body built by both forms before the call.\<close>

fun dataToSend_field :: "runtime \<Rightarrow> formData \<Rightarrow> fieldName \<Rightarrow> jsvalue" where
  "dataToSend_field rt fd PARK_NAME = Str (trim (fd PARK_NAME))"
| "dataToSend_field rt fd PARK_ABBREVIATION = Str (toUpperCase rt (trim (fd PARK_ABBREVIATION)))"
| "dataToSend_field rt fd PARK_IMG_URL = Str (trim (fd PARK_IMG_URL))"
| "dataToSend_field rt fd PARK_ADDRESS = Str (trim (fd PARK_ADDRESS))"
| "dataToSend_field rt fd PARK_CITY = Str (fd PARK_CITY)"
| "dataToSend_field rt fd PARK_STATE = Str (trim (fd PARK_STATE))"
| "dataToSend_field rt fd PARK_ZIP_CODE = Number (parseInt rt (fd PARK_ZIP_CODE))"
| "dataToSend_field rt fd PARK_LATITUDE = Number (parseFloat rt (fd PARK_LATITUDE))"
| "dataToSend_field rt fd PARK_LONGITUDE = Number (parseFloat rt (fd PARK_LONGITUDE))"

definition dataToSend :: "runtime \<Rightarrow> formData \<Rightarrow> (fieldName \<times> jsvalue) list" where
  "dataToSend rt fd = map (\<lambda>key. (key, dataToSend_field rt fd key)) formKeys"

definition Home_fetchParks_request :: "nat \<Rightarrow> request" where
  "Home_fetchParks_request now =
     \<lparr> http_method = GET, url = js ''/parks'', data = None,
       headers = [(js ''Cache-Control'', js ''no-cache, no-store, must-revalidate''),
                  (js ''Pragma'', js ''no-cache''), (js ''Expires'', js ''0'')],
       params = [(js ''_t'', string_of_nat now)], timeout = None \<rparr>"

definition ParkDetail_fetchPark_request :: "jsstring \<Rightarrow> request" where
  "ParkDetail_fetchPark_request ident =
     \<lparr> http_method = GET, url = js ''/parks/'' @ ident, data = None,
       headers = [(js ''Cache-Control'', js ''no-cache'')], params = [], timeout = Some 10000 \<rparr>"

definition ParkEditForm_fetchPark_request :: "jsstring \<Rightarrow> request" where
  "ParkEditForm_fetchPark_request ident =
     \<lparr> http_method = GET, url = js ''/parks/'' @ ident, data = None,
       headers = [(js ''Accept'', js ''application/json'')], params = [], timeout = Some 10000 \<rparr>"

definition ParkForm_post_request :: "runtime \<Rightarrow> formData \<Rightarrow> request" where
  "ParkForm_post_request rt fd =
     \<lparr> http_method = POST, url = js ''/parks'', data = Some (dataToSend rt fd),
       headers = [(js ''Content-Type'', js ''application/json'')], params = [],
       timeout = Some 15000 \<rparr>"

definition ParkEditForm_put_request :: "runtime \<Rightarrow> jsstring \<Rightarrow> formData \<Rightarrow> request" where
  "ParkEditForm_put_request rt ident fd =
     \<lparr> http_method = PUT, url = js ''/parks/'' @ ident, data = Some (dataToSend rt fd),
       headers = [(js ''Content-Type'', js ''application/json'')], params = [],
       timeout = Some 15000 \<rparr>"

definition ParkCard_delete_request :: "park \<Rightarrow> request" where
  "ParkCard_delete_request park =
     \<lparr> http_method = DELETE, url = js ''/parks/'' @ template_id (park_id park), data = None,
       headers = [(js ''Accept'', js ''application/json''),
                  (js ''Content-Type'', js ''application/json'')],
       params = [], timeout = Some 15000 \<rparr>"

definition useDeletePark_delete_request :: "int nullable \<Rightarrow> request" where
  "useDeletePark_delete_request parkId =
     \<lparr> http_method = DELETE, url = js ''/parks/'' @ template_id parkId, data = None,
       headers = [], params = [], timeout = None \<rparr>"

section \<open>Handlers as traces\<close>

text \<open>
  An event handler is modelled by the list of its effects, in the order in which they
  happen: the dialogs it opens, the requests it issues, the state variables it assigns,
  the navigation it triggers. The trace is a function of the values the handler closes
  over and of what the environment answers in each of its successive runs, a retry
  starting a new run; a run for which no answers are given is not traced. Console
  output and \<^verbatim>\<open>preventDefault\<close> are left out.

  What the HTTP client answers: the promise resolves with a status, or rejects with an
  error of which the handlers read \<^verbatim>\<open>response.status\<close>, \<^verbatim>\<open>code\<close>,
  \<^verbatim>\<open>response.data.message\<close>, \<^verbatim>\<open>response.data.error\<close> and \<^verbatim>\<open>message\<close>.
\<close>

record axiosError =
  err_status :: "nat option"
  err_code :: "jsstring option"
  err_data_message :: "jsstring option"
  err_data_error :: "jsstring option"
  err_message :: "jsstring option"

datatype response = Resolved nat | Rejected axiosError

text \<open>The string held by a property of the error that has been found truthy.\<close>

definition string_value :: "jsstring option \<Rightarrow> jsstring" where
  "string_value x = (case x of None \<Rightarrow> [] | Some s \<Rightarrow> s)"

text \<open>
  The body of a resolved response, as the fetches read it with
  \<^verbatim>\<open>res.data.data || res.data\<close>: an array of records or one record (directly or
  under the key \<^verbatim>\<open>data\<close>), no body (\<^verbatim>\<open>null\<close> or \<^verbatim>\<open>undefined\<close>, on which reading
  the key throws), or another falsy body (the empty string, zero or false).
\<close>

datatype payload = ParkList "park list" | OnePark park | NoData | EmptyBody

text \<open>
  One run of a handler reads, in this order as far as it gets: \<^verbatim>\<open>navigator.onLine\<close>,
  the user's answer to the confirmation dialog, the clock (only the fetch of the list),
  the answer of the HTTP client and the payload of a resolved response,
  \<^verbatim>\<open>navigator.onLine\<close> again (only the card's handler, while choosing the message), and
  the user's answer to the retry dialog.
\<close>

record pass =
  onLine :: bool
  confirmed :: bool
  now :: nat
  response :: response
  payload :: payload
  onLineAfter :: bool
  retry :: bool

datatype icon = Warning | Error | Question | Success | Info

text \<open>
  The body of a dialog is its text, or, for an HTML body, the values interpolated into
  the fixed markup, in order.
\<close>

datatype dialogBody = Text jsstring | Html "jsstring list"

datatype effect =
    Alert icon jsstring dialogBody
  | Ask icon jsstring dialogBody jsstring jsstring
  | Loading jsstring
  | HttpRequest request
  | SetErrors errorsObj
  | SetFormData formData
  | SetOriginalData formData
  | SetLoading bool
  | SetParks "park list"
  | SetPark park
  | SetIsSubmitting bool
  | SetIsDeleting bool
  | SetDeleteError "jsstring option"
  | Navigate jsstring bool
  | OnParkDeleted "int nullable"
  | Reload

fun is_dialog :: "effect \<Rightarrow> bool" where
  "is_dialog (Alert _ _ _) = True"
| "is_dialog (Ask _ _ _ _ _) = True"
| "is_dialog _ = False"

text \<open>
  A retry calls the handler again without awaiting it: the new run proceeds up to its
  first dialog, where it suspends or ends, then the \<^verbatim>\<open>finally\<close> block of the old run
  executes, and the new run continues when the user answers.
\<close>

fun finally_then :: "effect list \<Rightarrow> effect list \<Rightarrow> effect list" where
  "finally_then fin [] = fin"
| "finally_then fin (e # es) = (if is_dialog e then e # fin @ es else e # finally_then fin es)"

definition initialFormData :: formData where
  "initialFormData = (\<lambda>key. if key = PARK_STATE then js ''Jalisco'' else [])"

subsection \<open>ParkForm.handleSubmit\<close>

definition ParkForm_errorMessage :: "axiosError \<Rightarrow> jsstring" where
  "ParkForm_errorMessage error =
     (if err_status error = Some 422 then js ''Datos inv'' @ [0xE1] @ js ''lidos''
      else if err_status error = Some 409 then js ''Parque duplicado''
      else if err_status error = Some 500 then js ''Error del servidor''
      else if err_code error = Some (js ''ECONNABORTED'') then js ''Tiempo agotado''
      else js ''Error desconocido'')"

definition incompleteAlert :: "errorsObj \<Rightarrow> effect" where
  "incompleteAlert errors =
     Alert Error (js ''Formulario incompleto'')
       (Text (js ''Corrige '' @ string_of_nat (length (Object_keys errors))
              @ js '' campo(s) con errores''))"

definition offlineAlert :: effect where
  "offlineAlert =
     Alert Warning (js ''Sin conexi'' @ [0xF3] @ js ''n'')
       (Text (js ''Verifica tu conexi'' @ [0xF3] @ js ''n a internet''))"

fun ParkForm_handleSubmit :: "runtime \<Rightarrow> formData \<Rightarrow> errorsObj \<Rightarrow> pass list \<Rightarrow> effect list" where
  "ParkForm_handleSubmit rt formData errors [] = []"
| "ParkForm_handleSubmit rt formData errors (p # ps) =
     (if \<not> onLine p then [offlineAlert]
      else if \<not> snd (validateAll rt formData)
        then [SetErrors (fst (validateAll rt formData)), incompleteAlert errors]
      else
        SetErrors (fst (validateAll rt formData))
        # Ask Question ([0xBF] @ js ''Crear parque?'')
            (Text (js ''Nombre: '' @ formData PARK_NAME @ [0x0A] @ js ''Ciudad: '' @ formData PARK_CITY))
            (js ''Crear'') (js ''Cancelar'')
        # (if \<not> confirmed p then []
           else
             SetIsSubmitting True
             # Loading (js ''Creando parque...'')
             # HttpRequest (ParkForm_post_request rt formData)
             # (case response p of
                  Resolved status \<Rightarrow>
                    [Alert Success ([0xA1, 0xC9] @ js ''xito!'')
                       (Text (formData PARK_NAME @ js '' creado correctamente'')),
                     SetFormData initialFormData, SetErrors [],
                     Navigate (js ''/'') True, SetIsSubmitting False]
                | Rejected error \<Rightarrow>
                    Ask Error (js ''Error'') (Text (ParkForm_errorMessage error))
                     (js ''Reintentar'') (js ''Cancelar'')
                    # (if retry p
                       then finally_then [SetIsSubmitting False]
                              (ParkForm_handleSubmit rt formData errors ps)
                       else [SetIsSubmitting False]))))"

subsection \<open>ParkEditForm.handleSubmit\<close>

text \<open>
  \<^verbatim>\<open>JSON.stringify\<close> of an object whose values are strings. A string is quoted with
  the short escapes, \<^verbatim>\<open>\u\<close> escapes for the other control characters and for
  surrogates that are not part of a pair, and every other code unit as it is.
\<close>

definition hex_digit :: "jschar \<Rightarrow> jschar" where
  "hex_digit d = (if d < 10 then 0x30 + d else 0x57 + d)"

definition unicode_escape :: "jschar \<Rightarrow> jsstring" where
  "unicode_escape c =
     [0x5C, 0x75, hex_digit (c div 0x1000), hex_digit (c div 0x100 mod 0x10),
      hex_digit (c div 0x10 mod 0x10), hex_digit (c mod 0x10)]"

definition quote_unit :: "jschar \<Rightarrow> jsstring" where
  "quote_unit c =
     (if c = 0x08 then [0x5C, 0x62]
      else if c = 0x09 then [0x5C, 0x74]
      else if c = 0x0A then [0x5C, 0x6E]
      else if c = 0x0C then [0x5C, 0x66]
      else if c = 0x0D then [0x5C, 0x72]
      else if c = 0x22 then [0x5C, 0x22]
      else if c = 0x5C then [0x5C, 0x5C]
      else if c < 0x20 \<or> (0xD800 \<le> c \<and> c \<le> 0xDFFF) then unicode_escape c
      else [c])"

fun quote_units :: "jsstring \<Rightarrow> jsstring" where
  "quote_units [] = []"
| "quote_units [c] = quote_unit c"
| "quote_units (c # d # cs) =
     (if (0xD800 \<le> c \<and> c \<le> 0xDBFF) \<and> (0xDC00 \<le> d \<and> d \<le> 0xDFFF)
      then c # d # quote_units cs
      else quote_unit c @ quote_units (d # cs))"

definition QuoteJSONString :: "jsstring \<Rightarrow> jsstring" where
  "QuoteJSONString s = 0x22 # quote_units s @ [0x22]"

fun Array_join :: "jsstring \<Rightarrow> jsstring list \<Rightarrow> jsstring" where
  "Array_join sep [] = []"
| "Array_join sep [x] = x"
| "Array_join sep (x # y # ys) = x @ sep @ Array_join sep (y # ys)"

definition JSON_stringify :: "(jsstring \<times> jsstring) list \<Rightarrow> jsstring" where
  "JSON_stringify obj =
     js ''{''
     @ Array_join (js '','') (map (\<lambda>(k, v). QuoteJSONString k @ js '':'' @ QuoteJSONString v) obj)
     @ js ''}''"

fun key_name :: "fieldName \<Rightarrow> jsstring" where
  "key_name PARK_NAME = js ''park_name''"
| "key_name PARK_ABBREVIATION = js ''park_abbreviation''"
| "key_name PARK_IMG_URL = js ''park_img_url''"
| "key_name PARK_ADDRESS = js ''park_address''"
| "key_name PARK_CITY = js ''park_city''"
| "key_name PARK_STATE = js ''park_state''"
| "key_name PARK_ZIP_CODE = js ''park_zip_code''"
| "key_name PARK_LATITUDE = js ''park_latitude''"
| "key_name PARK_LONGITUDE = js ''park_longitude''"

definition entries :: "formData \<Rightarrow> (jsstring \<times> jsstring) list" where
  "entries fd = map (\<lambda>key. (key_name key, fd key)) formKeys"

text \<open>\<open>originalData\<close> is the empty object (\<open>None\<close>) until the record has been fetched.\<close>

definition hasChanges :: "formData \<Rightarrow> formData option \<Rightarrow> bool" where
  "hasChanges formData originalData \<longleftrightarrow>
     JSON_stringify (entries formData)
       \<noteq> JSON_stringify (case originalData of None \<Rightarrow> [] | Some orig \<Rightarrow> entries orig)"

text \<open>\<^verbatim>\<open>String.prototype.replace\<close> with a string pattern replaces the first occurrence.\<close>

fun String_replace :: "jsstring \<Rightarrow> jsstring \<Rightarrow> jsstring \<Rightarrow> jsstring" where
  "String_replace pat rep [] = (if pat = [] then rep else [])"
| "String_replace pat rep (c # cs) =
     (if take (length pat) (c # cs) = pat then rep @ drop (length pat) (c # cs)
      else c # String_replace pat rep cs)"

definition changeLine :: "formData \<Rightarrow> formData option \<Rightarrow> fieldName \<Rightarrow> jsstring" where
  "changeLine formData originalData key =
     [0x2022, 0x20]
     @ String_replace (js ''_'') (js '' '') (String_replace (js ''park_'') [] (key_name key))
     @ [0x3A, 0x20, 0x22]
     @ template_string (case originalData of None \<Rightarrow> Undefined | Some orig \<Rightarrow> Val (orig key))
     @ [0x22, 0x20, 0x2192, 0x20, 0x22] @ formData key @ [0x22]"

definition changes :: "formData \<Rightarrow> formData option \<Rightarrow> jsstring list" where
  "changes formData originalData =
     map (changeLine formData originalData)
       (filter (\<lambda>key. case originalData of None \<Rightarrow> True | Some orig \<Rightarrow> formData key \<noteq> orig key)
          formKeys)"

definition ParkEditForm_confirmation :: "formData \<Rightarrow> formData option \<Rightarrow> effect" where
  "ParkEditForm_confirmation formData originalData =
     Ask Question ([0xBF] @ js ''Actualizar parque?'')
       (Html [formData PARK_NAME,
              Array_join (js ''<br>'') (take 5 (changes formData originalData)),
              (if length (changes formData originalData) > 5
               then js ''<br>...y '' @ string_of_nat (length (changes formData originalData) - 5)
                    @ js '' m'' @ [0xE1] @ js ''s''
               else [])])
       (js ''S'' @ [0xED] @ js '', actualizar'') (js ''Cancelar'')"

definition ParkEditForm_errorConfig :: "axiosError \<Rightarrow> jsstring \<times> jsstring" where
  "ParkEditForm_errorConfig error =
     (if err_status error = Some 422
        then (js ''Datos inv'' @ [0xE1] @ js ''lidos'',
              js ''Los datos enviados no son v'' @ [0xE1] @ js ''lidos. Revisa todos los campos.'')
      else if err_status error = Some 404
        then (js ''Parque no encontrado'', js ''El parque ya no existe o fue eliminado.'')
      else if err_status error = Some 409
        then (js ''Conflicto de datos'',
              js ''Ya existe otro parque con ese nombre o abreviaci'' @ [0xF3] @ js ''n.'')
      else if err_status error = Some 500
        then (js ''Error del servidor'',
              js ''Problema en el servidor. Intenta m'' @ [0xE1] @ js ''s tarde.'')
      else if err_code error = Some (js ''ECONNABORTED'')
        then (js ''Tiempo agotado'',
              js ''La actualizaci'' @ [0xF3] @ js ''n tard'' @ [0xF3] @ js '' demasiado tiempo.'')
      else (js ''Error de actualizaci'' @ [0xF3] @ js ''n'', js ''Error desconocido al actualizar''))"

fun ParkEditForm_handleSubmit ::
  "runtime \<Rightarrow> jsstring \<Rightarrow> formData \<Rightarrow> formData option \<Rightarrow> errorsObj \<Rightarrow> pass list \<Rightarrow> effect list" where
  "ParkEditForm_handleSubmit rt ident formData originalData errors [] = []"
| "ParkEditForm_handleSubmit rt ident formData originalData errors (p # ps) =
     (if \<not> onLine p then [offlineAlert]
      else if \<not> snd (validateAll rt formData)
        then [SetErrors (fst (validateAll rt formData)), incompleteAlert errors]
      else if \<not> hasChanges formData originalData
        then [SetErrors (fst (validateAll rt formData)),
              Alert Info (js ''Sin cambios'')
                (Text (js ''No se detectaron modificaciones en el parque''))]
      else
        SetErrors (fst (validateAll rt formData))
        # ParkEditForm_confirmation formData originalData
        # (if \<not> confirmed p then []
           else
             SetIsSubmitting True
             # Loading (js ''Actualizando parque...'')
             # HttpRequest (ParkEditForm_put_request rt ident formData)
             # (case response p of
                  Resolved status \<Rightarrow>
                    (if status = 200 \<or> status = 201
                     then [Alert Success ([0xA1] @ js ''Parque actualizado!'')
                             (Text (formData PARK_NAME
                                    @ js '' se actualiz'' @ [0xF3] @ js '' correctamente'')),
                           Navigate (js ''/'') True, SetIsSubmitting False]
                     else [SetIsSubmitting False])
                | Rejected error \<Rightarrow>
                    Ask Error (fst (ParkEditForm_errorConfig error))
                      (Text (snd (ParkEditForm_errorConfig error)))
                      (js ''Reintentar'') (js ''Cancelar'')
                    # (if retry p
                       then finally_then [SetIsSubmitting False]
                              (ParkEditForm_handleSubmit rt ident formData originalData errors ps)
                       else [SetIsSubmitting False]))))"

subsection \<open>ParkCard.handleDeleteClick\<close>

definition ParkCard_errorConfig :: "axiosError \<Rightarrow> bool \<Rightarrow> jsstring \<times> jsstring" where
  "ParkCard_errorConfig error online =
     (if err_status error = Some 404
        then (js ''Parque no encontrado'',
              js ''El parque ya no existe o fue eliminado previamente'')
      else if err_status error = Some 403
        then (js ''Sin permisos'', js ''No tienes permisos para eliminar este parque'')
      else if err_status error = Some 401
        then (js ''No autorizado'',
              js ''Tus credenciales han expirado. Actualiza la p'' @ [0xE1] @ js ''gina'')
      else if err_status error = Some 500
        then (js ''Error del servidor'',
              js ''Hubo un problema en el servidor. Intenta m'' @ [0xE1] @ js ''s tarde'')
      else if err_code error = Some (js ''ECONNABORTED'')
        then (js ''Tiempo agotado'',
              js ''La eliminaci'' @ [0xF3] @ js ''n tard'' @ [0xF3]
              @ js '' demasiado tiempo. Verifica tu conexi'' @ [0xF3] @ js ''n'')
      else if truthy (err_data_message error)
        then (js ''Error al eliminar'', string_value (err_data_message error))
      else if \<not> online
        then (js ''Sin conexi'' @ [0xF3] @ js ''n'',
              js ''Se perdi'' @ [0xF3] @ js '' la conexi'' @ [0xF3]
              @ js ''n a internet durante la eliminaci'' @ [0xF3] @ js ''n'')
      else (js ''Error al eliminar'', js ''No se pudo eliminar el parque''))"

definition ParkCard_confirmation :: "park \<Rightarrow> effect" where
  "ParkCard_confirmation park =
     Ask Warning ([0xBF] @ js ''Eliminar parque?'')
       (Html [template_string (park_name park), template_string (park_abbreviation park),
              template_string (park_city park), template_string (park_state park),
              template_string (park_address park)])
       (js ''S'' @ [0xED] @ js '', eliminar permanentemente'') (js ''Cancelar'')"

text \<open>
  \<open>onParkDeleted\<close> is the optional callback of the parent: \<open>True\<close> when it was passed
  (the list view passes \<open>handleParkDeleted\<close>).
\<close>

fun ParkCard_handleDeleteClick :: "park \<Rightarrow> bool \<Rightarrow> pass list \<Rightarrow> effect list" where
  "ParkCard_handleDeleteClick park onParkDeleted [] = []"
| "ParkCard_handleDeleteClick park onParkDeleted (p # ps) =
     (if \<not> onLine p
        then [Alert Warning (js ''Sin conexi'' @ [0xF3] @ js ''n'')
                (Text (js ''Verifica tu conexi'' @ [0xF3] @ js ''n a internet para eliminar el parque''))]
      else
        ParkCard_confirmation park
        # (if \<not> confirmed p then []
           else
             SetIsDeleting True
             # Loading (js ''Eliminando parque...'')
             # HttpRequest (ParkCard_delete_request park)
             # (case response p of
                  Resolved status \<Rightarrow>
                    Alert Success ([0xA1] @ js ''Parque eliminado exitosamente!'')
                      (Html [template_string (park_name park)])
                    # (if onParkDeleted then [OnParkDeleted (park_id park)] else [])
                    @ [SetIsDeleting False]
                | Rejected error \<Rightarrow>
                    Ask Error (fst (ParkCard_errorConfig error (onLineAfter p)))
                      (Text (snd (ParkCard_errorConfig error (onLineAfter p))))
                      (js ''Reintentar'') (js ''Cancelar'')
                    # (if retry p
                       then finally_then [SetIsDeleting False]
                              (ParkCard_handleDeleteClick park onParkDeleted ps)
                       else [SetIsDeleting False]))))"

text \<open>
  The collection held by the parent of the list view after a trace: each callback
  replaces it by \<open>handleParkDeleted\<close> of the collection the list view was rendered with.
\<close>

fun collection_after :: "park list \<Rightarrow> park list \<Rightarrow> effect list \<Rightarrow> park list" where
  "collection_after parks cur [] = cur"
| "collection_after parks cur (OnParkDeleted i # es) =
     collection_after parks (handleParkDeleted parks i) es"
| "collection_after parks cur (e # es) = collection_after parks cur es"

subsection \<open>useDeletePark.deletePark\<close>

datatype deleteResult = Cancelled | Succeeded | Failed jsstring

definition first_truthy :: "jsstring option list \<Rightarrow> jsstring \<Rightarrow> jsstring" where
  "first_truthy xs dflt = (case filter truthy xs of [] \<Rightarrow> dflt | x # _ \<Rightarrow> string_value x)"

definition useDeletePark_errorMessage :: "response \<Rightarrow> jsstring" where
  "useDeletePark_errorMessage r =
     (case r of
        Resolved status \<Rightarrow> js ''Status inesperado: '' @ string_of_nat status
      | Rejected error \<Rightarrow>
          first_truthy [err_data_message error, err_data_error error, err_message error]
            (js ''Error desconocido al eliminar el parque''))"

definition useDeletePark_deletePark ::
  "int nullable \<Rightarrow> jsstring \<Rightarrow> pass \<Rightarrow> effect list \<times> deleteResult" where
  "useDeletePark_deletePark parkId parkName p =
     (let ask = Ask Warning ([0xBF] @ js ''Eliminar parque?'') (Html [parkName])
                  (js ''S'' @ [0xED] @ js '', eliminar'') (js ''Cancelar'')
      in if \<not> confirmed p then ([ask], Cancelled)
         else if response p = Resolved 200 \<or> response p = Resolved 204
           then ([ask, SetIsDeleting True, SetDeleteError None,
                  HttpRequest (useDeletePark_delete_request parkId),
                  Alert Success ([0xA1] @ js ''Eliminado!'')
                    (Text (js ''El parque '' @ [0x22] @ parkName @ [0x22]
                           @ js '' ha sido eliminado exitosamente.'')),
                  SetIsDeleting False, Reload],
                 Succeeded)
         else ([ask, SetIsDeleting True, SetDeleteError None,
                HttpRequest (useDeletePark_delete_request parkId),
                Alert Error (js ''Error'')
                  (Text (js ''No se pudo eliminar el parque: '' @ useDeletePark_errorMessage (response p))),
                SetDeleteError (Some (useDeletePark_errorMessage (response p))),
                SetIsDeleting False],
               Failed (useDeletePark_errorMessage (response p))))"

subsection \<open>Typing into a form\<close>

text \<open>\<open>handleChange\<close> stores the value and schedules \<open>validate\<close> on it, which runs 300 ms
  later; \<open>change_and_validate\<close> is the state once it has run.\<close>

definition handleChange :: "fieldName \<Rightarrow> jsstring \<Rightarrow> formData \<Rightarrow> formData" where
  "handleChange name val prev = prev(name := val)"

definition change_and_validate ::
  "runtime \<Rightarrow> fieldName \<times> jsstring \<Rightarrow> formData \<times> errorsObj \<Rightarrow> formData \<times> errorsObj" where
  "change_and_validate rt input state =
     (handleChange (fst input) (snd input) (fst state),
      fst (validate rt (fst input) (snd input) (snd state)))"

subsection \<open>Observations on traces\<close>

fun requests :: "effect list \<Rightarrow> request list" where
  "requests [] = []"
| "requests (HttpRequest r # es) = r # requests es"
| "requests (e # es) = requests es"

fun offers_retry :: "effect \<Rightarrow> bool" where
  "offers_retry (Ask i title body confirmText cancelText) \<longleftrightarrow> i = Error \<and> confirmText = js ''Reintentar''"
| "offers_retry _ \<longleftrightarrow> False"

section \<open>Fetching (Home.jsx, ParkDetail.jsx, ParkEditForm.jsx)\<close>

text \<open>
  The \<^verbatim>\<open>try\<close> block of a fetch ends with the decoded value or in the \<^verbatim>\<open>catch\<close>
  block, with the rejection of the HTTP client or with an error thrown by the handler's
  own code on a payload of the wrong shape. Such an error has no response and no code,
  and these handlers do not read its message.
\<close>

datatype 'a outcome = Done 'a | Caught axiosError

definition thrown :: axiosError where
  "thrown =
     \<lparr> err_status = None, err_code = None, err_data_message = None, err_data_error = None,
       err_message = None \<rparr>"

subsection \<open>Home.fetchParks\<close>

definition Home_outcome :: "pass \<Rightarrow> park list outcome" where
  "Home_outcome p =
     (case response p of
        Rejected error \<Rightarrow> Caught error
      | Resolved status \<Rightarrow>
          (case payload p of
             ParkList parks \<Rightarrow> Done parks
           | EmptyBody \<Rightarrow> Done []
           | _ \<Rightarrow> Caught thrown))"

fun Home_fetchParks :: "pass list \<Rightarrow> effect list" where
  "Home_fetchParks [] = []"
| "Home_fetchParks (p # ps) =
     (if \<not> onLine p
        then [Alert Warning (js ''Sin conexi'' @ [0xF3] @ js ''n a internet'')
                (Text (js ''Verifica tu conexi'' @ [0xF3] @ js ''n y vuelve a intentar'')),
              SetLoading False]
      else
        SetLoading True
        # HttpRequest (Home_fetchParks_request (now p))
        # (case Home_outcome p of
             Done parks \<Rightarrow>
               SetParks parks
               # (if length parks > 0
                  then [Alert Success ([0xA1] @ js ''Parques cargados!'')
                          (Text (js ''Se cargaron '' @ string_of_nat (length parks)
                                 @ js '' parque(s) exitosamente''))]
                  else [])
               @ [SetLoading False]
           | Caught error \<Rightarrow>
               [Ask Error (js ''Error al cargar parques'')
                  (Text (if truthy (err_data_message error)
                         then string_value (err_data_message error)
                         else js ''No se pudieron cargar los parques. Verifica tu conexi''
                              @ [0xF3] @ js ''n a internet.''))
                  (js ''Reintentar'') (js ''Cancelar''),
                SetParks [], SetLoading False]
               @ (if retry p then Home_fetchParks ps else [])))"

subsection \<open>ParkDetail.fetchPark\<close>

definition fetchPark_outcome :: "pass \<Rightarrow> park outcome" where
  "fetchPark_outcome p =
     (case response p of
        Rejected error \<Rightarrow> Caught error
      | Resolved status \<Rightarrow>
          (case payload p of
             OnePark park \<Rightarrow> if truthy_field (park_name park) then Done park else Caught thrown
           | _ \<Rightarrow> Caught thrown))"

fun ParkDetail_fetchPark :: "jsstring \<Rightarrow> pass list \<Rightarrow> effect list" where
  "ParkDetail_fetchPark ident [] = []"
| "ParkDetail_fetchPark ident (p # ps) =
     (if \<not> onLine p then [offlineAlert, SetLoading False]
      else
        SetLoading True
        # HttpRequest (ParkDetail_fetchPark_request ident)
        # (case fetchPark_outcome p of
             Done park \<Rightarrow> [SetPark park, SetLoading False]
           | Caught error \<Rightarrow>
               if err_status error = Some 404
                 then [Alert Error (js ''Parque no encontrado'')
                         (Text (js ''No existe el parque con ID: '' @ ident)),
                       SetLoading False, Navigate (js ''/'') False]
               else
                 Ask Error
                   (if err_status error = Some 500 then js ''Error del servidor''
                    else js ''Error de conexi'' @ [0xF3] @ js ''n'')
                   (Text (if err_status error = Some 500
                          then js ''Problema en el servidor. Intenta m'' @ [0xE1] @ js ''s tarde.''
                          else js ''No se pudo conectar con el servidor''))
                   (js ''Reintentar'') (js ''Volver'')
                 # SetLoading False
                 # (if retry p then ParkDetail_fetchPark ident ps
                    else [Navigate (js ''/'') False])))"

subsection \<open>ParkEditForm.fetchPark\<close>

fun parkData :: "park \<Rightarrow> formData" where
  "parkData park PARK_NAME = or_empty (park_name park)"
| "parkData park PARK_ABBREVIATION = or_empty (park_abbreviation park)"
| "parkData park PARK_IMG_URL = or_empty (park_img_url park)"
| "parkData park PARK_ADDRESS = or_empty (park_address park)"
| "parkData park PARK_CITY = or_empty (park_city park)"
| "parkData park PARK_STATE =
     (if truthy_field (park_state park) then or_empty (park_state park) else js ''Jalisco'')"
| "parkData park PARK_ZIP_CODE = or_empty (park_zip_code park)"
| "parkData park PARK_LATITUDE = or_empty (park_latitude park)"
| "parkData park PARK_LONGITUDE = or_empty (park_longitude park)"

definition ParkEditForm_loadError :: "jsstring \<Rightarrow> axiosError \<Rightarrow> jsstring \<times> jsstring" where
  "ParkEditForm_loadError ident error =
     (if err_status error = Some 404
        then (js ''Parque no encontrado'', js ''No existe un parque con ID: '' @ ident)
      else if err_status error = Some 500
        then (js ''Error del servidor'',
              js ''Problema en el servidor. Intenta m'' @ [0xE1] @ js ''s tarde.'')
      else if err_code error = Some (js ''ECONNABORTED'')
        then (js ''Tiempo agotado'',
              js ''La carga tard'' @ [0xF3] @ js '' demasiado tiempo.'')
      else (js ''Error de carga'', js ''No se pudo cargar el parque''))"

text \<open>The effect that runs on mount; \<open>ident\<close> is the route parameter, empty when absent.\<close>

definition ParkEditForm_fetchPark :: "jsstring \<Rightarrow> pass \<Rightarrow> effect list" where
  "ParkEditForm_fetchPark ident p =
     (if ident = []
        then [Alert Warning (js ''ID faltante'')
                (Text (js ''No se proporcion'' @ [0xF3] @ js '' un ID de parque v''
                       @ [0xE1] @ js ''lido'')),
              Navigate (js ''/'') False]
      else if \<not> onLine p then [offlineAlert, Navigate (js ''/'') False]
      else
        HttpRequest (ParkEditForm_fetchPark_request ident)
        # (case fetchPark_outcome p of
             Done park \<Rightarrow>
               [SetFormData (parkData park), SetOriginalData (parkData park),
                Alert Success (js ''Parque cargado'')
                  (Text (or_empty (park_name park) @ js '' listo para editar'')),
                SetLoading False]
           | Caught error \<Rightarrow>
               [Ask Error (fst (ParkEditForm_loadError ident error))
                  (Text (snd (ParkEditForm_loadError ident error)))
                  (js ''Reintentar'') (js ''Volver al inicio''),
                (if retry p then Reload else Navigate (js ''/'') False),
                SetLoading False]))"

section \<open>The specification's reading\<close>

definition spec_min_length :: "fieldName \<Rightarrow> nat option" where
  "spec_min_length f =
     (case f of PARK_NAME \<Rightarrow> Some 3 | PARK_ABBREVIATION \<Rightarrow> Some 2 | PARK_ADDRESS \<Rightarrow> Some 10
      | _ \<Rightarrow> None)"

definition spec_max_length :: "fieldName \<Rightarrow> nat option" where
  "spec_max_length f =
     (case f of PARK_NAME \<Rightarrow> Some 100 | PARK_ABBREVIATION \<Rightarrow> Some 10 | PARK_ADDRESS \<Rightarrow> Some 150
      | _ \<Rightarrow> None)"

definition too_short :: "fieldName \<Rightarrow> jsstring \<Rightarrow> bool" where
  "too_short f v \<longleftrightarrow> (case spec_min_length f of None \<Rightarrow> False | Some m \<Rightarrow> length v < m)"

definition too_long :: "fieldName \<Rightarrow> jsstring \<Rightarrow> bool" where
  "too_long f v \<longleftrightarrow> (case spec_max_length f of None \<Rightarrow> False | Some m \<Rightarrow> m < length v)"


definition consistent_comparator :: "('a \<Rightarrow> 'a \<Rightarrow> int) \<Rightarrow> bool" where
  "consistent_comparator cmp \<longleftrightarrow>
     (\<forall>a b. cmp a b \<le> 0 \<or> cmp b a \<le> 0)
     \<and> (\<forall>a b c. cmp a b \<le> 0 \<longrightarrow> cmp b c \<le> 0 \<longrightarrow> cmp a c \<le> 0)"

section \<open>A runtime for worked examples\<close>

text \<open>
  The theorems hold for every runtime. The worked examples need one: this one reads a
  plain decimal literal (an optional minus sign, digits, optionally a point and digits)
  as its exact value, which is what the language does on the literals of the examples,
  all of them exactly representable; it changes the case of ASCII letters only and
  compares strings code unit by code unit.
\<close>

definition digit_value :: "jschar \<Rightarrow> nat" where
  "digit_value c = unat (c - 0x30)"

definition digits_value :: "jsstring \<Rightarrow> nat" where
  "digits_value s = foldl (\<lambda>a c. 10 * a + digit_value c) 0 s"

definition unsigned_decimal :: "jsstring \<Rightarrow> rat option" where
  "unsigned_decimal s =
     (let ip = takeWhile isDigit s; rest = dropWhile isDigit s
      in if ip = [] then None
         else case rest of
                [] \<Rightarrow> Some (of_nat (digits_value ip))
              | c # fr \<Rightarrow>
                  if c = 0x2E \<and> fr \<noteq> [] \<and> list_all isDigit fr
                  then Some (of_nat (digits_value ip) + of_nat (digits_value fr) / 10 ^ length fr)
                  else None)"

definition decimal_number :: "jsstring \<Rightarrow> jsnumber" where
  "decimal_number s =
     (case s of
        [] \<Rightarrow> NaN
      | c # cs \<Rightarrow>
          if c = 0x2D then (case unsigned_decimal cs of None \<Rightarrow> NaN | Some x \<Rightarrow> Num (- x))
          else (case unsigned_decimal s of None \<Rightarrow> NaN | Some x \<Rightarrow> Num x))"

definition integer_prefix :: "jsstring \<Rightarrow> jsnumber" where
  "integer_prefix s =
     (case s of
        [] \<Rightarrow> NaN
      | c # cs \<Rightarrow>
          if c = 0x2D
          then (case takeWhile isDigit cs of
                  [] \<Rightarrow> NaN
                | d # ds \<Rightarrow> Num (- of_nat (digits_value (d # ds))))
          else (case takeWhile isDigit s of
                  [] \<Rightarrow> NaN
                | d # ds \<Rightarrow> Num (of_nat (digits_value (d # ds)))))"

definition ascii_upper :: "jschar \<Rightarrow> jschar" where
  "ascii_upper c = (if 0x61 \<le> c \<and> c \<le> 0x7A then c - 0x20 else c)"

definition ascii_lower :: "jschar \<Rightarrow> jschar" where
  "ascii_lower c = (if 0x41 \<le> c \<and> c \<le> 0x5A then c + 0x20 else c)"

fun compare_units :: "jsstring \<Rightarrow> jsstring \<Rightarrow> int" where
  "compare_units [] [] = 0"
| "compare_units [] (y # ys) = - 1"
| "compare_units (x # xs) [] = 1"
| "compare_units (x # xs) (y # ys) =
     (if x < y then - 1 else if y < x then 1 else compare_units xs ys)"

definition example_runtime :: runtime where
  "example_runtime =
     \<lparr> ToNumber = decimal_number, parseInt = integer_prefix, parseFloat = decimal_number,
       toUpperCase = map ascii_upper, toLowerCase = map ascii_lower,
       localeCompare = compare_units \<rparr>"

fun example_draft :: formData where
  "example_draft PARK_NAME = js ''Parque Central''"
| "example_draft PARK_ABBREVIATION = js ''PC''"
| "example_draft PARK_IMG_URL = js ''https://example.com/parque.jpg''"
| "example_draft PARK_ADDRESS = js ''Av. Alcalde 1351''"
| "example_draft PARK_CITY = js ''Zapopan''"
| "example_draft PARK_STATE = js ''Jalisco''"
| "example_draft PARK_ZIP_CODE = js ''44100''"
| "example_draft PARK_LATITUDE = js ''20.5''"
| "example_draft PARK_LONGITUDE = js ''-103.5''"

definition example_park :: park where
  "example_park =
     \<lparr> park_id = Val 7, park_name = Val (js ''Parque Central''),
       park_abbreviation = Val (js ''PC''), park_img_url = Undefined,
       park_img_uri = Val (js ''parks/central.jpg''),
       park_address = Val (js ''Av. Alcalde 1351''), park_city = Val (js ''Zapopan''),
       park_state = Val (js ''Jalisco''), park_zip_code = Val (js ''44100''),
       park_latitude = Val (js ''20.5''), park_longitude = Val (js ''-103.5'') \<rparr>"

definition timeoutError :: axiosError where
  "timeoutError =
     \<lparr> err_status = None, err_code = Some (js ''ECONNABORTED''), err_data_message = None,
       err_data_error = None, err_message = Some (js ''timeout of 15000ms exceeded'') \<rparr>"

definition serverError :: axiosError where
  "serverError =
     \<lparr> err_status = Some 500, err_code = Some (js ''ERR_BAD_RESPONSE''),
       err_data_message = None, err_data_error = None,
       err_message = Some (js ''Request failed with status code 500'') \<rparr>"

definition server_fails :: pass where
  "server_fails =
     \<lparr> onLine = True, confirmed = True, now = 0, response = Rejected serverError,
       payload = NoData, onLineAfter = True, retry = False \<rparr>"

definition fails_then_retry :: pass where
  "fails_then_retry =
     \<lparr> onLine = True, confirmed = True, now = 0, response = Rejected timeoutError, payload = NoData, onLineAfter = True,
       retry = True \<rparr>"

definition fails_then_cancel :: pass where
  "fails_then_cancel =
     \<lparr> onLine = True, confirmed = True, now = 0, response = Rejected timeoutError, payload = NoData, onLineAfter = True,
       retry = False \<rparr>"

definition succeeds :: pass where
  "succeeds =
     \<lparr> onLine = True, confirmed = True, now = 0, response = Resolved 200, payload = NoData, onLineAfter = True,
       retry = False \<rparr>"

definition declines :: pass where
  "declines =
     \<lparr> onLine = True, confirmed = False, now = 0, response = Resolved 200, payload = NoData, onLineAfter = True,
       retry = False \<rparr>"

lemmas example_passes =
  fails_then_retry_def fails_then_cancel_def succeeds_def declines_def timeoutError_def
  server_fails_def serverError_def

definition typed_in_create_form :: "(fieldName \<times> jsstring) list" where
  "typed_in_create_form =
     [(PARK_NAME, js ''Parque 1''), (PARK_ABBREVIATION, js ''PC''),
      (PARK_IMG_URL, js ''https://example.com/parque.jpg''),
      (PARK_ADDRESS, js ''Av. Alcalde 1351''), (PARK_CITY, js ''Zapopan''),
      (PARK_ZIP_CODE, js ''44100''), (PARK_LATITUDE, js ''20.5''),
      (PARK_LONGITUDE, js ''-103.5'')]"

definition create_form_state :: "formData \<times> errorsObj" where
  "create_form_state =
     fold (change_and_validate example_runtime) typed_in_create_form (initialFormData, [])"

definition edit_form_state :: "formData \<times> errorsObj" where
  "edit_form_state =
     fold (change_and_validate example_runtime)
       [(PARK_NAME, js ''Parque 1''), (PARK_ABBREVIATION, js ''PCX'')] (example_draft, [])"

definition example_parks :: "park list" where
  "example_parks =
     [example_park,
      \<lparr> park_id = Val 3, park_name = Val (js ''Bosque Los Colomos''), park_abbreviation = Undefined,
        park_img_url = Undefined, park_img_uri = Undefined, park_address = Undefined,
        park_city = Val (js ''Guadalajara''), park_state = Val (js ''Jalisco''),
        park_zip_code = Undefined, park_latitude = Undefined, park_longitude = Undefined \<rparr>,
      \<lparr> park_id = Val 9, park_name = Val (js ''Parque Agua Azul''), park_abbreviation = Undefined,
        park_img_url = Undefined, park_img_uri = Undefined, park_address = Undefined,
        park_city = Val (js ''Guadalajara''), park_state = Val (js ''Jalisco''),
        park_zip_code = Undefined, park_latitude = Undefined, park_longitude = Undefined \<rparr>]"

definition stored_draft :: formData where
  "stored_draft = example_draft(PARK_NAME := js ''Parque 1'')"

definition offline :: pass where
  "offline =
     \<lparr> onLine = False, confirmed = True, now = 0, response = Resolved 200, payload = NoData, onLineAfter = False,
       retry = False \<rparr>"

definition notFoundError :: axiosError where
  "notFoundError =
     \<lparr> err_status = Some 404, err_code = Some (js ''ERR_BAD_REQUEST''), err_data_message = None,
       err_data_error = None, err_message = Some (js ''Request failed with status code 404'') \<rparr>"

definition not_found :: pass where
  "not_found =
     \<lparr> onLine = True, confirmed = True, now = 0, response = Rejected notFoundError,
       payload = NoData, onLineAfter = True, retry = False \<rparr>"

definition edited_draft :: formData where
  "edited_draft = example_draft(PARK_NAME := js ''Parque Uno'')"

section \<open>Properties of the validation rules\<close>

lemma set_trim: "set (trim s) \<subseteq> set s"
proof -
  have "set (trim s) \<subseteq> set (dropWhile isWhiteSpace s)"
    unfolding trim_def by (auto dest: set_dropWhileD)
  then show ?thesis by (auto dest: set_dropWhileD)
qed

lemma dropWhile_all_iff: "(\<forall>x \<in> set (dropWhile P xs). P x) \<longleftrightarrow> (\<forall>x \<in> set xs. P x)"
  by (induction xs) auto

lemma trim_Nil_iff: "trim s = [] \<longleftrightarrow> (\<forall>c \<in> set s. isWhiteSpace c)"
  unfolding trim_def by (simp add: dropWhile_all_iff)

lemma length_trim: "length (trim s) \<le> length s"
  unfolding trim_def
  by (metis length_dropWhile_le length_rev order_trans)

lemma letter_not_space: "isLetter c \<Longrightarrow> \<not> isWhiteSpace c"
  unfolding isLetter_def isWhiteSpace_def by (auto simp: word_le_nat_alt)

lemma rule_result_nonempty: "rule_result rt f v = Some e \<Longrightarrow> e \<noteq> []"
  by (cases f)
     (auto simp: rule_result_def rule_park_name_def rule_park_abbreviation_def
        rule_park_img_url_def rule_park_address_def rule_park_city_def rule_park_zip_code_def
        rule_park_latitude_def rule_park_longitude_def js_def split: if_splits)

lemma truthy_rule_result: "truthy (rule_result rt f v) \<longleftrightarrow> rule_result rt f v \<noteq> None"
  using rule_result_nonempty[of rt f v] by (auto simp: truthy_def split: option.splits)

lemma obj_set_new: "k \<notin> fst ` set obj \<Longrightarrow> obj_set k v obj = obj @ [(k, v)]"
  by (induction obj) auto

lemma fold_validateAll_step:
  "distinct ks \<Longrightarrow> set ks \<inter> fst ` set acc = {} \<Longrightarrow>
   fold (validateAll_step rt fd) ks (acc, b) = (acc @ failing rt fd ks, b \<and> failing rt fd ks = [])"
proof (induction ks arbitrary: acc b)
  case Nil
  then show ?case by (simp add: failing_def)
next
  case (Cons k ks)
  show ?case
  proof (cases "rule_result rt k (fd k) = None")
    case True
    then have "validateAll_step rt fd k (acc, b) = (acc, b)"
      by (simp add: validateAll_step_def truthy_def)
    moreover have "failing rt fd (k # ks) = failing rt fd ks"
      using True by (simp add: failing_def)
    ultimately show ?thesis using Cons by simp
  next
    case False
    have new: "k \<notin> fst ` set acc" using Cons.prems by auto
    have st: "validateAll_step rt fd k (acc, b) = (acc @ [(k, rule_result rt k (fd k))], False)"
      using False new by (simp add: validateAll_step_def truthy_rule_result obj_set_new)
    have fl: "failing rt fd (k # ks) = (k, rule_result rt k (fd k)) # failing rt fd ks"
      using False by (simp add: failing_def)
    have "set ks \<inter> fst ` set (acc @ [(k, rule_result rt k (fd k))]) = {}"
      using Cons.prems by auto
    with Cons.IH[of "acc @ [(k, rule_result rt k (fd k))]" False] Cons.prems st fl
    show ?thesis by simp
  qed
qed

lemma validateAll_failing:
  "validateAll rt fd = (failing rt fd formKeys, failing rt fd formKeys = [])"
  unfolding validateAll_def
  using fold_validateAll_step[of formKeys "[]" rt fd True]
  by (simp add: formKeys_def)

lemma snd_validate: "snd (validate rt f v prev) \<longleftrightarrow> rule_result rt f v = None"
  by (simp add: validate_def Let_def truthy_rule_result)

lemma out_of_bounds_rejected:
  "too_short f v \<or> too_long f v \<Longrightarrow> rule_result rt f v \<noteq> None"
  by (cases f)
     (auto simp: too_short_def too_long_def spec_min_length_def spec_max_length_def
        rule_result_def rule_park_name_def rule_park_abbreviation_def rule_park_address_def)

lemma test_img_url_not_blank: "test_img_url v \<Longrightarrow> trim v \<noteq> []"
proof -
  assume t: "test_img_url v"
  then obtain c cs where v: "v = c # cs" and c: "ci_char 0x68 c"
    by (cases v) (auto simp: test_img_url_def js_def split: option.splits if_splits)
  have "\<not> isWhiteSpace c" using c by (auto simp: ci_char_def isWhiteSpace_def)
  then show ?thesis using v by (auto simp: trim_Nil_iff)
qed

lemmas example_eval =
  js_def trim_def isWhiteSpace_def isLetter_def isDigit_def isLineTerminator_def ci_char_def
  test_letters_spaces_def test_letters_def test_img_url_def match_scheme_tail_def
  match_extension_def match_query_def test_zip_code_def validCities_def
  rule_result_def rule_park_name_def rule_park_abbreviation_def rule_park_img_url_def
  rule_park_address_def rule_park_city_def rule_park_zip_code_def rule_park_latitude_def
  rule_park_longitude_def isNaN_def example_runtime_def decimal_number_def
  unsigned_decimal_def digits_value_def digit_value_def

lemma example_draft_valid: "rule_result example_runtime k (example_draft k) = None"
  by (cases k) (simp_all add: example_eval)

section \<open>The card image\<close>



section \<open>The derived list\<close>

lemma mset_insert_by: "mset (insert_by cmp x ys) = add_mset x (mset ys)"
  by (induction ys) auto

lemma mset_Array_sort: "mset (Array_sort cmp xs) = mset xs"
  unfolding Array_sort_def by (induction xs) (auto simp: mset_insert_by)

lemma set_insert_by: "set (insert_by cmp x ys) = insert x (set ys)"
  by (induction ys) auto

lemma sorted_insert_by:
  assumes "consistent_comparator cmp" "sorted_wrt (\<lambda>a b. cmp a b \<le> 0) ys"
  shows "sorted_wrt (\<lambda>a b. cmp a b \<le> 0) (insert_by cmp x ys)"
  using assms(2)
proof (induction ys)
  case Nil
  then show ?case by simp
next
  case (Cons y ys)
  have tot: "\<And>a b. cmp a b \<le> 0 \<or> cmp b a \<le> 0"
    and tr: "\<And>a b c. cmp a b \<le> 0 \<Longrightarrow> cmp b c \<le> 0 \<Longrightarrow> cmp a c \<le> 0"
    using assms(1) unfolding consistent_comparator_def by blast+
  show ?case
  proof (cases "cmp x y \<le> 0")
    case True
    then have "\<forall>z \<in> set ys. cmp x z \<le> 0" using Cons.prems tr by auto
    with True Cons.prems show ?thesis by simp
  next
    case False
    then have "cmp y x \<le> 0" using tot by blast
    with False Cons show ?thesis by (auto simp: set_insert_by)
  qed
qed

lemma sorted_Array_sort:
  "consistent_comparator cmp \<Longrightarrow> sorted_wrt (\<lambda>a b. cmp a b \<le> 0) (Array_sort cmp xs)"
  unfolding Array_sort_def by (induction xs) (auto intro: sorted_insert_by)

lemma consistent_compareParks:
  assumes "consistent_comparator (localeCompare rt)"
  shows "consistent_comparator (compareParks rt sortBy)"
proof -
  have tot: "\<And>a b. localeCompare rt a b \<le> 0 \<or> localeCompare rt b a \<le> 0"
    and tr: "\<And>a b c. localeCompare rt a b \<le> 0 \<Longrightarrow> localeCompare rt b c \<le> 0
               \<Longrightarrow> localeCompare rt a c \<le> 0"
    using assms unfolding consistent_comparator_def by blast+
  have key: "consistent_comparator (\<lambda>a b. localeCompare rt (f a) (f b))" for f :: "park \<Rightarrow> jsstring"
    unfolding consistent_comparator_def using tot tr by blast
  have ids: "consistent_comparator (\<lambda>a b. or_zero (park_id b) - or_zero (park_id a))"
    unfolding consistent_comparator_def by auto
  consider "sortBy = js ''city''" | "sortBy \<noteq> js ''city''" "sortBy = js ''recent''"
    | "sortBy \<noteq> js ''city''" "sortBy \<noteq> js ''recent''" by blast
  then show ?thesis
  proof cases
    case 1
    then have "compareParks rt sortBy
                 = (\<lambda>a b. localeCompare rt (or_empty (park_city a)) (or_empty (park_city b)))"
      by (simp add: compareParks_def fun_eq_iff)
    then show ?thesis using key[of "\<lambda>a. or_empty (park_city a)"] by simp
  next
    case 2
    then have "compareParks rt sortBy = (\<lambda>a b. or_zero (park_id b) - or_zero (park_id a))"
      by (simp add: compareParks_def fun_eq_iff)
    then show ?thesis using ids by simp
  next
    case 3
    then have "compareParks rt sortBy
                 = (\<lambda>a b. localeCompare rt (or_empty (park_name a)) (or_empty (park_name b)))"
      by (simp add: compareParks_def fun_eq_iff)
    then show ?thesis using key[of "\<lambda>a. or_empty (park_name a)"] by simp
  qed
qed

lemma compare_units_total: "compare_units a b \<le> 0 \<or> compare_units b a \<le> 0"
  by (induction a b rule: compare_units.induct) auto

lemma compare_units_trans:
  "compare_units a b \<le> 0 \<Longrightarrow> compare_units b c \<le> 0 \<Longrightarrow> compare_units a c \<le> 0"
proof (induction a arbitrary: b c)
  case Nil
  then show ?case by (cases c) auto
next
  case (Cons x xs)
  then obtain y ys where b: "b = y # ys" by (cases b) auto
  with Cons.prems obtain z zs where c: "c = z # zs" by (cases c) auto
  show ?case
  proof (cases "x < z")
    case True
    then show ?thesis using c by simp
  next
    case False
    from Cons.prems b c have xy: "x \<le> y" and yz: "y \<le> z"
      by (auto split: if_splits)
    with False have "x = y" "y = z" by auto
    with Cons.prems b c Cons.IH[of ys zs] show ?thesis by (auto split: if_splits)
  qed
qed

lemma consistent_compare_units: "consistent_comparator compare_units"
  unfolding consistent_comparator_def
  using compare_units_total compare_units_trans by blast

section \<open>Traces of the handlers\<close>

lemma requests_append: "requests (a @ b) = requests a @ requests b"
  by (induction a rule: requests.induct) auto

lemma requests_finally_then:
  "requests fin = [] \<Longrightarrow> requests (finally_then fin es) = requests es"
proof (induction es)
  case Nil
  then show ?case by simp
next
  case (Cons e es)
  then show ?case by (cases e) (simp_all add: requests_append)
qed

lemma collection_after_append:
  "collection_after parks cur (a @ b) = collection_after parks (collection_after parks cur a) b"
  by (induction parks cur a rule: collection_after.induct) auto

lemma collection_after_finally_then:
  "(\<And>cur. collection_after parks cur fin = cur) \<Longrightarrow>
   collection_after parks cur (finally_then fin es) = collection_after parks cur es"
proof (induction es arbitrary: cur)
  case Nil
  then show ?case by simp
next
  case (Cons e es)
  then show ?case by (cases e) (simp_all add: collection_after_append)
qed

lemma set_finally_then: "set (finally_then fin es) = set fin \<union> set es"
  by (induction es) auto

subsection \<open>Deleting from the card\<close>

declare ParkForm_handleSubmit.simps(2) [simp del]
declare ParkEditForm_handleSubmit.simps(2) [simp del]
declare ParkCard_handleDeleteClick.simps(2) [simp del]

lemmas ParkCard_run = ParkCard_handleDeleteClick.simps(2)

lemma ParkCard_requests_same:
  "set (requests (ParkCard_handleDeleteClick park cb ps)) \<subseteq> {ParkCard_delete_request park}"
proof (induction ps)
  case Nil
  then show ?case by simp
next
  case (Cons p ps)
  then show ?case
    by (auto simp: ParkCard_run ParkCard_confirmation_def requests_append requests_finally_then
          split: response.splits if_splits)
qed

lemma ParkCard_requests_length:
  "length (requests (ParkCard_handleDeleteClick park cb ps)) \<le> length ps"
proof (induction ps)
  case Nil
  then show ?case by simp
next
  case (Cons p ps)
  then show ?case
    by (auto simp: ParkCard_run ParkCard_confirmation_def requests_append requests_finally_then
          split: response.splits if_splits)
qed

lemma ParkCard_failed_pass:
  assumes "onLine p" "confirmed p" "response p = Rejected error"
  shows "ParkCard_handleDeleteClick park cb (p # ps) =
           [ParkCard_confirmation park, SetIsDeleting True, Loading (js ''Eliminando parque...''),
            HttpRequest (ParkCard_delete_request park),
            Ask Error (fst (ParkCard_errorConfig error (onLineAfter p)))
              (Text (snd (ParkCard_errorConfig error (onLineAfter p))))
              (js ''Reintentar'') (js ''Cancelar'')]
           @ (if retry p
              then finally_then [SetIsDeleting False] (ParkCard_handleDeleteClick park cb ps)
              else [SetIsDeleting False])"
  using assms by (simp add: ParkCard_run)

lemma ParkCard_declined_pass:
  "\<not> onLine q \<or> \<not> confirmed q \<Longrightarrow> requests (ParkCard_handleDeleteClick park cb (q # qs)) = []"
  by (auto simp: ParkCard_run ParkCard_confirmation_def)

lemma ParkCard_final_pass:
  "onLine q \<Longrightarrow> confirmed q \<Longrightarrow> (\<forall>e. response q = Rejected e \<longrightarrow> \<not> retry q) \<Longrightarrow>
   requests (ParkCard_handleDeleteClick park cb (q # qs)) = [ParkCard_delete_request park]"
  by (auto simp: ParkCard_run ParkCard_confirmation_def requests_append split: response.splits)

text \<open>
  Claim C5, as amended. When the delete request of the card fails, a dialog with a retry
  button is shown and the failed run leaves the collection as it was. The requests of
  the trace are one delete of this record followed by those of the retried run, if the
  user retries. The retried run starts the handler afresh: it issues exactly one more
  delete of the same record when the browser is online and the user confirms the
  deletion again (and that run does not itself fail and get retried), and none when the
  browser is offline or the user declines the confirmation.
\<close>

theorem ParkCard_failed_delete_keeps_collection:
  assumes "onLine p" "confirmed p" "response p = Rejected error"
  shows "list_ex offers_retry (ParkCard_handleDeleteClick park cb (p # ps))
       \<and> collection_after parks cur (ParkCard_handleDeleteClick park cb (p # ps))
           = (if retry p then collection_after parks cur (ParkCard_handleDeleteClick park cb ps)
              else cur)
       \<and> requests (ParkCard_handleDeleteClick park cb (p # ps))
           = ParkCard_delete_request park
             # (if retry p then requests (ParkCard_handleDeleteClick park cb ps) else [])
       \<and> (\<forall>q qs. ps = q # qs \<and> retry p \<and> onLine q \<and> confirmed q
                  \<and> (\<forall>e. response q = Rejected e \<longrightarrow> \<not> retry q) \<longrightarrow>
            requests (ParkCard_handleDeleteClick park cb (p # ps))
              = [ParkCard_delete_request park, ParkCard_delete_request park])
       \<and> (\<forall>q qs. ps = q # qs \<and> retry p \<and> (\<not> onLine q \<or> \<not> confirmed q) \<longrightarrow>
            requests (ParkCard_handleDeleteClick park cb (p # ps)) = [ParkCard_delete_request park])"
proof -
  note fp = ParkCard_failed_pass[OF assms, of park cb ps]
  have a: "list_ex offers_retry (ParkCard_handleDeleteClick park cb (p # ps))"
    unfolding fp by (simp add: ParkCard_confirmation_def)
  have b: "collection_after parks cur (ParkCard_handleDeleteClick park cb (p # ps))
           = (if retry p then collection_after parks cur (ParkCard_handleDeleteClick park cb ps)
              else cur)"
    unfolding fp by (simp add: ParkCard_confirmation_def collection_after_finally_then)
  have c: "requests (ParkCard_handleDeleteClick park cb (p # ps))
           = ParkCard_delete_request park
             # (if retry p then requests (ParkCard_handleDeleteClick park cb ps) else [])"
    unfolding fp by (simp add: ParkCard_confirmation_def requests_finally_then)
  have d: "\<forall>q qs. ps = q # qs \<and> retry p \<and> onLine q \<and> confirmed q
                  \<and> (\<forall>e. response q = Rejected e \<longrightarrow> \<not> retry q) \<longrightarrow>
            requests (ParkCard_handleDeleteClick park cb (p # ps))
              = [ParkCard_delete_request park, ParkCard_delete_request park]"
    using c ParkCard_final_pass[of _ park cb] by auto
  have e: "\<forall>q qs. ps = q # qs \<and> retry p \<and> (\<not> onLine q \<or> \<not> confirmed q) \<longrightarrow>
            requests (ParkCard_handleDeleteClick park cb (p # ps)) = [ParkCard_delete_request park]"
    using c ParkCard_declined_pass[of _ park cb] by auto
  from a b c d e show ?thesis by blast
qed

text \<open>
  The claim as stated fails: after a timeout the user chooses retry, the handler asks
  again whether to delete, the user declines, and no further delete request is issued.
\<close>

theorem ParkCard_retry_then_decline_counterexample:
  "onLine fails_then_retry \<and> confirmed fails_then_retry
   \<and> response fails_then_retry = Rejected timeoutError \<and> retry fails_then_retry
   \<and> requests (ParkCard_handleDeleteClick example_park True [fails_then_retry, declines])
       = [ParkCard_delete_request example_park]"
  by (simp add: ParkCard_run example_passes ParkCard_confirmation_def)

theorem ParkCard_failed_delete_keeps_collection_witness:
  "onLine fails_then_retry \<and> confirmed fails_then_retry
   \<and> response fails_then_retry = Rejected timeoutError
   \<and> list_ex offers_retry (ParkCard_handleDeleteClick example_park True [fails_then_retry, succeeds])
   \<and> requests (ParkCard_handleDeleteClick example_park True [fails_then_retry, succeeds])
       = [ParkCard_delete_request example_park, ParkCard_delete_request example_park]
   \<and> collection_after [example_park] [example_park]
        (ParkCard_handleDeleteClick example_park True [fails_then_cancel]) = [example_park]"
proof -
  have a: "onLine fails_then_retry" "confirmed fails_then_retry"
    "response fails_then_retry = Rejected timeoutError"
    by (simp_all add: example_passes)
  have b: "onLine fails_then_cancel" "confirmed fails_then_cancel"
    "response fails_then_cancel = Rejected timeoutError"
    by (simp_all add: example_passes)
  have c: "retry fails_then_retry" "\<not> retry fails_then_cancel" "onLine succeeds"
    "confirmed succeeds" "response succeeds = Resolved 200"
    by (simp_all add: example_passes)
  show ?thesis
    using a c
      ParkCard_failed_delete_keeps_collection[OF a, of example_park True "[succeeds]"
        "[example_park]" "[example_park]"]
      ParkCard_failed_delete_keeps_collection[OF b, of example_park True "[]"
        "[example_park]" "[example_park]"]
    by auto
qed

lemma create_form_errors:
  "snd create_form_state =
     [(PARK_NAME, Some (js ''Solo letras y espacios'')), (PARK_ABBREVIATION, None),
      (PARK_IMG_URL, None), (PARK_ADDRESS, None), (PARK_CITY, None), (PARK_ZIP_CODE, None),
      (PARK_LATITUDE, None), (PARK_LONGITUDE, None)]"
  by (simp add: create_form_state_def typed_in_create_form_def change_and_validate_def
        validate_def truthy_def handleChange_def example_eval)

lemma create_form_draft:
  "fst create_form_state key =
     (if key = PARK_NAME then js ''Parque 1''
      else if key = PARK_STATE then js ''Jalisco'' else example_draft key)"
  by (cases key)
     (simp_all add: create_form_state_def typed_in_create_form_def change_and_validate_def
        handleChange_def initialFormData_def)

lemma create_form_validateAll:
  "validateAll example_runtime (fst create_form_state)
     = ([(PARK_NAME, Some (js ''Solo letras y espacios''))], False)"
  by (simp add: validateAll_failing failing_def formKeys_def create_form_draft example_eval)

lemma edit_form_errors:
  "snd edit_form_state =
     [(PARK_NAME, Some (js ''Solo letras y espacios'')), (PARK_ABBREVIATION, None)]"
  by (simp add: edit_form_state_def change_and_validate_def
        validate_def truthy_def handleChange_def example_eval)

lemma edit_form_validateAll:
  "validateAll example_runtime (fst edit_form_state)
     = ([(PARK_NAME, Some (js ''Solo letras y espacios''))], False)"
  by (simp add: edit_form_state_def change_and_validate_def handleChange_def
        validateAll_failing failing_def formKeys_def example_eval)

text \<open>
  Claim C3 at a failing input. In the create form the user has typed eight fields, all
  valid but the name; in the edit form the user has changed the name to an invalid one
  and the abbreviation to a valid one. In both, the submit is stopped before any request
  and exactly one field fails, but the alert counts the keys of the \<open>errors\<close> object
  of the last render, which holds a key for every field touched: it reports 8 and 2.
\<close>

theorem handleSubmit_reports_stale_error_count:
  "ParkForm_handleSubmit example_runtime (fst create_form_state) (snd create_form_state) [succeeds]
     = [SetErrors [(PARK_NAME, Some (js ''Solo letras y espacios''))],
        Alert Error (js ''Formulario incompleto'') (Text (js ''Corrige 8 campo(s) con errores''))]
   \<and> ParkEditForm_handleSubmit example_runtime (js ''7'') (fst edit_form_state) (Some example_draft)
       (snd edit_form_state) [succeeds]
     = [SetErrors [(PARK_NAME, Some (js ''Solo letras y espacios''))],
        Alert Error (js ''Formulario incompleto'') (Text (js ''Corrige 2 campo(s) con errores''))]"
  by (simp add: ParkForm_handleSubmit.simps(2) ParkEditForm_handleSubmit.simps(2)
        create_form_validateAll edit_form_validateAll create_form_errors edit_form_errors
        succeeds_def incompleteAlert_def Object_keys_def js_def)

subsection \<open>Submitting the forms\<close>

lemmas ParkForm_run = ParkForm_handleSubmit.simps(2)
lemmas ParkEditForm_run = ParkEditForm_handleSubmit.simps(2)

lemma hasChanges_same: "\<not> hasChanges fd (Some fd)"
  by (simp add: hasChanges_def)

lemma ParkEditForm_unchanged_run:
  "ParkEditForm_handleSubmit rt ident fd (Some fd) errors (p # ps) =
     (if \<not> onLine p then [offlineAlert]
      else if \<not> snd (validateAll rt fd)
        then [SetErrors (fst (validateAll rt fd)), incompleteAlert errors]
      else [SetErrors (fst (validateAll rt fd)),
            Alert Info (js ''Sin cambios'')
              (Text (js ''No se detectaron modificaciones en el parque''))])"
  by (simp add: ParkEditForm_run hasChanges_same)

text \<open>
  Claim C4, as amended. When the draft of the edit form equals the fetched record, a
  run of the submit handler ends at its first alert: the connectivity warning when the
  browser is offline, the incomplete-form alert when the draft fails \<open>validateAll\<close>, and
  the notice that nothing changed otherwise. Whatever the answers of the environment, no
  request is issued and the draft is never assigned (the handler has no assignment to
  the snapshot at all).
\<close>

theorem ParkEditForm_unchanged_draft_stays_local:
  "ParkEditForm_handleSubmit rt ident fd (Some fd) errors (p # ps) =
     (if \<not> onLine p then [offlineAlert]
      else if \<not> snd (validateAll rt fd)
        then [SetErrors (fst (validateAll rt fd)), incompleteAlert errors]
      else [SetErrors (fst (validateAll rt fd)),
            Alert Info (js ''Sin cambios'')
              (Text (js ''No se detectaron modificaciones en el parque''))])
   \<and> requests (ParkEditForm_handleSubmit rt ident fd (Some fd) errors passes) = []
   \<and> (\<forall>d. SetFormData d \<notin> set (ParkEditForm_handleSubmit rt ident fd (Some fd) errors passes))"
proof -
  have "requests (ParkEditForm_handleSubmit rt ident fd (Some fd) errors passes) = []
        \<and> (\<forall>d. SetFormData d \<notin> set (ParkEditForm_handleSubmit rt ident fd (Some fd) errors passes))"
    by (cases passes) (simp_all add: ParkEditForm_unchanged_run offlineAlert_def incompleteAlert_def)
  then show ?thesis using ParkEditForm_unchanged_run by blast
qed

lemma stored_draft_validateAll:
  "validateAll example_runtime stored_draft
     = ([(PARK_NAME, Some (js ''Solo letras y espacios''))], False)"
  by (simp add: stored_draft_def validateAll_failing failing_def formKeys_def example_eval)

text \<open>
  The claim as stated fails: with an unchanged draft the notice is the connectivity
  warning when the browser is offline, and the incomplete-form alert when the fetched
  record itself does not pass the rules (here a name with a digit).
\<close>

theorem ParkEditForm_unchanged_draft_counterexample:
  "ParkEditForm_handleSubmit example_runtime (js ''7'') example_draft (Some example_draft) [] [offline]
     = [Alert Warning (js ''Sin conexi'' @ [0xF3] @ js ''n'')
          (Text (js ''Verifica tu conexi'' @ [0xF3] @ js ''n a internet''))]
   \<and> ParkEditForm_handleSubmit example_runtime (js ''7'') stored_draft (Some stored_draft) [] [succeeds]
     = [SetErrors [(PARK_NAME, Some (js ''Solo letras y espacios''))],
        Alert Error (js ''Formulario incompleto'') (Text (js ''Corrige 0 campo(s) con errores''))]"
  by (simp add: ParkEditForm_run offline_def succeeds_def offlineAlert_def incompleteAlert_def
        stored_draft_validateAll Object_keys_def js_def)

lemma example_draft_validateAll: "validateAll example_runtime example_draft = ([], True)"
  by (simp add: validateAll_failing failing_def example_draft_valid)

theorem ParkEditForm_unchanged_draft_stays_local_witness:
  "ParkEditForm_handleSubmit example_runtime (js ''7'') example_draft (Some example_draft) []
     [succeeds]
     = [SetErrors [],
        Alert Info (js ''Sin cambios'') (Text (js ''No se detectaron modificaciones en el parque''))]
   \<and> requests (ParkEditForm_handleSubmit example_runtime (js ''7'') example_draft
        (Some example_draft) [] [succeeds]) = []"
  using ParkEditForm_unchanged_draft_stays_local[of example_runtime "js ''7''" example_draft "[]"
      succeeds "[]" "[succeeds]"]
  by (simp add: example_draft_validateAll succeeds_def)

subsection \<open>Timeouts\<close>

lemma ParkForm_requests_same:
  "set (requests (ParkForm_handleSubmit rt fd errors ps)) \<subseteq> {ParkForm_post_request rt fd}
   \<and> length (requests (ParkForm_handleSubmit rt fd errors ps)) \<le> length ps"
proof (induction ps)
  case Nil
  then show ?case by simp
next
  case (Cons p ps)
  then show ?case
    by (auto simp: ParkForm_run offlineAlert_def incompleteAlert_def requests_finally_then
          split: response.splits if_splits)
qed

lemma ParkEditForm_requests_same:
  "set (requests (ParkEditForm_handleSubmit rt ident fd od errors ps))
     \<subseteq> {ParkEditForm_put_request rt ident fd}
   \<and> length (requests (ParkEditForm_handleSubmit rt ident fd od errors ps)) \<le> length ps"
proof (induction ps)
  case Nil
  then show ?case by simp
next
  case (Cons p ps)
  then show ?case
    by (auto simp: ParkEditForm_run offlineAlert_def incompleteAlert_def
          ParkEditForm_confirmation_def requests_finally_then
          split: response.splits if_splits)
qed

declare Home_fetchParks.simps(2) [simp del]
declare ParkDetail_fetchPark.simps(2) [simp del]

lemmas Home_run = Home_fetchParks.simps(2)
lemmas ParkDetail_run = ParkDetail_fetchPark.simps(2)

lemma Home_requests:
  "(\<forall>r \<in> set (requests (Home_fetchParks ps)). timeout r = None)
   \<and> length (requests (Home_fetchParks ps)) \<le> length ps"
proof (induction ps)
  case Nil
  then show ?case by simp
next
  case (Cons p ps)
  then show ?case
    by (auto simp: Home_run Home_fetchParks_request_def requests_append
          split: outcome.splits if_splits)
qed

lemma ParkDetail_requests:
  "(\<forall>r \<in> set (requests (ParkDetail_fetchPark ident ps)). timeout r = Some 10000)
   \<and> length (requests (ParkDetail_fetchPark ident ps)) \<le> length ps"
proof (induction ps)
  case Nil
  then show ?case by simp
next
  case (Cons p ps)
  then show ?case
    by (auto simp: ParkDetail_run ParkDetail_fetchPark_request_def offlineAlert_def
          split: outcome.splits if_splits)
qed

lemma ParkEditForm_fetch_requests:
  "(\<forall>r \<in> set (requests (ParkEditForm_fetchPark ident p)). timeout r = Some 10000)
   \<and> length (requests (ParkEditForm_fetchPark ident p)) \<le> 1"
  by (auto simp: ParkEditForm_fetchPark_def ParkEditForm_fetchPark_request_def offlineAlert_def
        split: outcome.splits if_splits)

lemma useDeletePark_requests:
  "(\<forall>r \<in> set (requests (fst (useDeletePark_deletePark parkId parkName p))). timeout r = None)
   \<and> length (requests (fst (useDeletePark_deletePark parkId parkName p))) \<le> 1"
  by (auto simp: useDeletePark_deletePark_def Let_def useDeletePark_delete_request_def)

text \<open>
  Claim C9, as amended. The two fetches of a single record pass a timeout of 10000 ms;
  create, update and the card's delete pass 15000 ms. The fetch of the list and the
  delete of the \<open>useDeletePark\<close> hook pass no timeout. The same holds of every request
  issued in any trace of the handlers, and a trace has at most one request for each run
  of its handler.
\<close>

theorem explicit_timeouts_of_requests:
  "timeout (ParkDetail_fetchPark_request ident) = Some 10000
   \<and> timeout (ParkEditForm_fetchPark_request ident) = Some 10000
   \<and> timeout (ParkForm_post_request rt fd) = Some 15000
   \<and> timeout (ParkEditForm_put_request rt ident fd) = Some 15000
   \<and> timeout (ParkCard_delete_request park) = Some 15000
   \<and> timeout (Home_fetchParks_request clock) = None
   \<and> timeout (useDeletePark_delete_request parkId) = None
   \<and> (\<forall>r \<in> set (requests (ParkDetail_fetchPark ident ps)). timeout r = Some 10000)
   \<and> (\<forall>r \<in> set (requests (ParkEditForm_fetchPark ident p)). timeout r = Some 10000)
   \<and> (\<forall>r \<in> set (requests (ParkForm_handleSubmit rt fd errors ps)). timeout r = Some 15000)
   \<and> (\<forall>r \<in> set (requests (ParkEditForm_handleSubmit rt ident fd od errors ps)).
         timeout r = Some 15000)
   \<and> (\<forall>r \<in> set (requests (ParkCard_handleDeleteClick park cb ps)). timeout r = Some 15000)
   \<and> (\<forall>r \<in> set (requests (Home_fetchParks ps)). timeout r = None)
   \<and> (\<forall>r \<in> set (requests (fst (useDeletePark_deletePark parkId parkName p))).
         timeout r = None)
   \<and> length (requests (ParkDetail_fetchPark ident ps)) \<le> length ps
   \<and> length (requests (ParkEditForm_fetchPark ident p)) \<le> 1
   \<and> length (requests (ParkForm_handleSubmit rt fd errors ps)) \<le> length ps
   \<and> length (requests (ParkEditForm_handleSubmit rt ident fd od errors ps)) \<le> length ps
   \<and> length (requests (ParkCard_handleDeleteClick park cb ps)) \<le> length ps
   \<and> length (requests (Home_fetchParks ps)) \<le> length ps
   \<and> length (requests (fst (useDeletePark_deletePark parkId parkName p))) \<le> 1"
proof -
  have a: "\<forall>r \<in> set (requests (ParkForm_handleSubmit rt fd errors ps)). timeout r = Some 15000"
    using ParkForm_requests_same[of rt fd errors ps] by (auto simp: ParkForm_post_request_def)
  have b: "\<forall>r \<in> set (requests (ParkEditForm_handleSubmit rt ident fd od errors ps)).
             timeout r = Some 15000"
    using ParkEditForm_requests_same[of rt ident fd od errors ps]
    by (auto simp: ParkEditForm_put_request_def)
  have c: "\<forall>r \<in> set (requests (ParkCard_handleDeleteClick park cb ps)). timeout r = Some 15000"
    using ParkCard_requests_same[of park cb ps] by (auto simp: ParkCard_delete_request_def)
  have d: "timeout (ParkDetail_fetchPark_request ident) = Some 10000
     \<and> timeout (ParkEditForm_fetchPark_request ident) = Some 10000
     \<and> timeout (ParkForm_post_request rt fd) = Some 15000
     \<and> timeout (ParkEditForm_put_request rt ident fd) = Some 15000
     \<and> timeout (ParkCard_delete_request park) = Some 15000
     \<and> timeout (Home_fetchParks_request clock) = None
     \<and> timeout (useDeletePark_delete_request parkId) = None"
    by (simp add: ParkDetail_fetchPark_request_def ParkEditForm_fetchPark_request_def
          ParkForm_post_request_def ParkEditForm_put_request_def ParkCard_delete_request_def
          Home_fetchParks_request_def useDeletePark_delete_request_def)
  show ?thesis
    using a b c d ParkForm_requests_same[of rt fd errors ps]
      ParkEditForm_requests_same[of rt ident fd od errors ps]
      ParkCard_requests_length[of park cb ps]
      Home_requests[of ps] ParkDetail_requests[of ident ps]
      ParkEditForm_fetch_requests[of ident p] useDeletePark_requests[of parkId parkName p]
    by blast
qed

text \<open>
  The claim as stated fails for the list: the request of its fetch has no timeout of
  its own.
\<close>

theorem list_request_without_timeout_counterexample:
  "requests (Home_fetchParks [server_fails]) = [Home_fetchParks_request 0]
   \<and> timeout (Home_fetchParks_request 0) = None"
  by (simp add: Home_run Home_outcome_def example_passes Home_fetchParks_request_def)

theorem explicit_timeouts_of_requests_witness:
  "requests (ParkCard_handleDeleteClick example_park True [fails_then_retry, succeeds])
     = [ParkCard_delete_request example_park, ParkCard_delete_request example_park]
   \<and> timeout (ParkCard_delete_request example_park) = Some 15000
   \<and> requests (ParkForm_handleSubmit example_runtime example_draft [] [succeeds])
     = [ParkForm_post_request example_runtime example_draft]
   \<and> timeout (ParkForm_post_request example_runtime example_draft) = Some 15000
   \<and> requests (ParkDetail_fetchPark (js ''7'') [not_found]) = [ParkDetail_fetchPark_request (js ''7'')]
   \<and> timeout (ParkDetail_fetchPark_request (js ''7'')) = Some 10000"
proof -
  have a: "requests (ParkCard_handleDeleteClick example_park True [fails_then_retry, succeeds])
             = [ParkCard_delete_request example_park, ParkCard_delete_request example_park]"
    by (simp add: ParkCard_run example_passes ParkCard_confirmation_def)
  have b: "requests (ParkForm_handleSubmit example_runtime example_draft [] [succeeds])
             = [ParkForm_post_request example_runtime example_draft]"
    by (simp add: ParkForm_run example_passes example_draft_validateAll)
  have c: "requests (ParkDetail_fetchPark (js ''7'') [not_found])
             = [ParkDetail_fetchPark_request (js ''7'')]"
    by (simp add: ParkDetail_run fetchPark_outcome_def not_found_def notFoundError_def)
  show ?thesis
    using a b c
      explicit_timeouts_of_requests[where rt = example_runtime and fd = example_draft
        and park = example_park and cb = True and ps = "[fails_then_retry, succeeds]"]
      explicit_timeouts_of_requests[where rt = example_runtime and fd = example_draft
        and errors = "[]" and ps = "[succeeds]"]
      explicit_timeouts_of_requests[where ident = "js ''7''" and ps = "[not_found]"]
    by simp
qed

subsection \<open>Failed requests\<close>

lemma ParkForm_errorMessage_nonempty: "ParkForm_errorMessage error \<noteq> []"
  by (simp add: ParkForm_errorMessage_def js_def)

lemma ParkEditForm_errorConfig_nonempty:
  "fst (ParkEditForm_errorConfig error) \<noteq> [] \<and> snd (ParkEditForm_errorConfig error) \<noteq> []"
  by (simp add: ParkEditForm_errorConfig_def js_def)

lemma ParkCard_errorConfig_nonempty:
  "fst (ParkCard_errorConfig error online) \<noteq> [] \<and> snd (ParkCard_errorConfig error online) \<noteq> []"
  by (auto simp: ParkCard_errorConfig_def js_def truthy_def string_value_def
        split: option.splits)

lemma ParkForm_failed_pass:
  assumes "onLine p" "confirmed p" "response p = Rejected error" "snd (validateAll rt fd)"
  shows "ParkForm_handleSubmit rt fd errors (p # ps) =
           [SetErrors (fst (validateAll rt fd)),
            Ask Question ([0xBF] @ js ''Crear parque?'')
              (Text (js ''Nombre: '' @ fd PARK_NAME @ [0x0A] @ js ''Ciudad: '' @ fd PARK_CITY))
              (js ''Crear'') (js ''Cancelar''),
            SetIsSubmitting True, Loading (js ''Creando parque...''),
            HttpRequest (ParkForm_post_request rt fd),
            Ask Error (js ''Error'') (Text (ParkForm_errorMessage error))
              (js ''Reintentar'') (js ''Cancelar'')]
           @ (if retry p
              then finally_then [SetIsSubmitting False] (ParkForm_handleSubmit rt fd errors ps)
              else [SetIsSubmitting False])"
  using assms by (simp add: ParkForm_run)

lemma ParkEditForm_failed_pass:
  assumes "onLine p" "confirmed p" "response p = Rejected error" "snd (validateAll rt fd)"
    "hasChanges fd od"
  shows "ParkEditForm_handleSubmit rt ident fd od errors (p # ps) =
           [SetErrors (fst (validateAll rt fd)), ParkEditForm_confirmation fd od,
            SetIsSubmitting True, Loading (js ''Actualizando parque...''),
            HttpRequest (ParkEditForm_put_request rt ident fd),
            Ask Error (fst (ParkEditForm_errorConfig error))
              (Text (snd (ParkEditForm_errorConfig error)))
              (js ''Reintentar'') (js ''Cancelar'')]
           @ (if retry p
              then finally_then [SetIsSubmitting False]
                     (ParkEditForm_handleSubmit rt ident fd od errors ps)
              else [SetIsSubmitting False])"
  using assms by (simp add: ParkEditForm_run)

lemma useDeletePark_failed:
  assumes "confirmed p" "response p = Rejected error"
  shows "fst (useDeletePark_deletePark parkId parkName p) =
           [Ask Warning ([0xBF] @ js ''Eliminar parque?'') (Html [parkName])
              (js ''S'' @ [0xED] @ js '', eliminar'') (js ''Cancelar''),
            SetIsDeleting True, SetDeleteError None,
            HttpRequest (useDeletePark_delete_request parkId),
            Alert Error (js ''Error'')
              (Text (js ''No se pudo eliminar el parque: ''
                     @ useDeletePark_errorMessage (Rejected error))),
            SetDeleteError (Some (useDeletePark_errorMessage (Rejected error))),
            SetIsDeleting False]"
  using assms by (simp add: useDeletePark_deletePark_def Let_def)

lemma Home_failed_pass:
  assumes "onLine p" "response p = Rejected error"
  shows "Home_fetchParks (p # ps) =
           [SetLoading True, HttpRequest (Home_fetchParks_request (now p)),
            Ask Error (js ''Error al cargar parques'')
              (Text (if truthy (err_data_message error)
                     then string_value (err_data_message error)
                     else js ''No se pudieron cargar los parques. Verifica tu conexi''
                          @ [0xF3] @ js ''n a internet.''))
              (js ''Reintentar'') (js ''Cancelar''),
            SetParks [], SetLoading False]
           @ (if retry p then Home_fetchParks ps else [])"
  using assms by (simp add: Home_run Home_outcome_def)

lemma ParkDetail_not_found_pass:
  assumes "onLine p" "response p = Rejected error" "err_status error = Some 404"
  shows "ParkDetail_fetchPark ident (p # ps) =
           [SetLoading True, HttpRequest (ParkDetail_fetchPark_request ident),
            Alert Error (js ''Parque no encontrado'')
              (Text (js ''No existe el parque con ID: '' @ ident)),
            SetLoading False, Navigate (js ''/'') False]"
  using assms by (simp add: ParkDetail_run fetchPark_outcome_def)

lemma ParkDetail_failed_pass:
  assumes "onLine p" "response p = Rejected error" "err_status error \<noteq> Some 404"
  shows "ParkDetail_fetchPark ident (p # ps) =
           [SetLoading True, HttpRequest (ParkDetail_fetchPark_request ident),
            Ask Error
              (if err_status error = Some 500 then js ''Error del servidor''
               else js ''Error de conexi'' @ [0xF3] @ js ''n'')
              (Text (if err_status error = Some 500
                     then js ''Problema en el servidor. Intenta m'' @ [0xE1] @ js ''s tarde.''
                     else js ''No se pudo conectar con el servidor''))
              (js ''Reintentar'') (js ''Volver''),
            SetLoading False]
           @ (if retry p then ParkDetail_fetchPark ident ps else [Navigate (js ''/'') False])"
  using assms by (simp add: ParkDetail_run fetchPark_outcome_def)

lemma ParkEditForm_fetch_failed:
  assumes "onLine p" "response p = Rejected error" "ident \<noteq> []"
  shows "ParkEditForm_fetchPark ident p =
           [HttpRequest (ParkEditForm_fetchPark_request ident),
            Ask Error (fst (ParkEditForm_loadError ident error))
              (Text (snd (ParkEditForm_loadError ident error)))
              (js ''Reintentar'') (js ''Volver al inicio''),
            (if retry p then Reload else Navigate (js ''/'') False),
            SetLoading False]"
  using assms by (simp add: ParkEditForm_fetchPark_def fetchPark_outcome_def)

lemma ParkEditForm_loadError_nonempty:
  "fst (ParkEditForm_loadError ident error) \<noteq> [] \<and> snd (ParkEditForm_loadError ident error) \<noteq> []"
  by (simp add: ParkEditForm_loadError_def js_def)

lemma edited_draft_validateAll: "validateAll example_runtime edited_draft = ([], True)"
  by (simp add: edited_draft_def validateAll_failing failing_def formKeys_def example_eval)

lemma edited_draft_hasChanges: "hasChanges edited_draft (Some example_draft)"
  by (simp add: hasChanges_def edited_draft_def JSON_stringify_def entries_def formKeys_def
        QuoteJSONString_def quote_unit_def js_def)

end
